theory Spec2Isabelle
  imports Main
begin

section \<open>The jobs service of the cluster master\<close>

text \<open>
  A shallow embedding of the jobs service (the module that submits jobs, creates
  execution contexts, allocates them and reacts to cluster events) and of the storage
  module \<^verbatim>\<open>lib/cluster/storage/jobs.js\<close> it builds on.

  Naming: an identifier of the source that starts with an underscore is written with
  the prefix \<open>u_\<close> (\<^verbatim>\<open>_status\<close> is \<open>u_status\<close>, \<^verbatim>\<open>_setStatus\<close> is \<open>u_setStatus\<close>).
  A parameter named like a field is primed: the parameter \<^verbatim>\<open>ex_id\<close> is \<open>ex_id'\<close>, the
  field \<^verbatim>\<open>ex_id\<close> of a record is \<open>ex_id\<close>. \<^verbatim>\<open>job_store.get\<close> is \<open>job_store_get\<close>, and so on
  for the other methods of the two stores; \<^verbatim>\<open>update\<close> is primed too (\<open>ex_store_update'\<close>),
  its plain name being the update of the field \<open>ex_store\<close>.
\<close>

subsection \<open>Records of the document store\<close>

text \<open>
  Jobs and execution contexts are plain JavaScript objects over one set of field
  names. A field that is absent (\<^verbatim>\<open>undefined\<close>) is \<open>None\<close>. The same type serves for
  the partial objects handed to \<^verbatim>\<open>update\<close>.
\<close>

type_synonym uuid = nat

record obj =
  name :: "string option"
  workers :: "nat option"
  lifecycle :: "string option"
  operations :: "string list option"
  assets :: "string list option"
  moderator :: "(string \<times> string list) list option"
  job_id :: "uuid option"
  ex_id :: "uuid option"
  u_context :: "string option"
  u_created :: "nat option"
  u_updated :: "nat option"
  u_status :: "string option"
  u_recover_execution :: "bool option"
  u_has_errors :: "string option"
  u_failureReason :: "string option"
  u_slicer_stats :: "string option"

definition empty_obj :: obj where
  "empty_obj = \<lparr> name = None, workers = None, lifecycle = None, operations = None,
     assets = None, moderator = None, job_id = None, ex_id = None, u_context = None,
     u_created = None, u_updated = None, u_status = None, u_recover_execution = None,
     u_has_errors = None, u_failureReason = None, u_slicer_stats = None \<rparr>"

definition orElse :: "'a option \<Rightarrow> 'a option \<Rightarrow> 'a option" where
  "orElse x y = (case x of None \<Rightarrow> y | Some v \<Rightarrow> Some v)"

text \<open>\<^verbatim>\<open>_.assign(a, b)\<close>, and the merge of a partial document into a stored one: every
  field present in \<open>b\<close> overrides the field of \<open>a\<close>.\<close>

definition assign :: "obj \<Rightarrow> obj \<Rightarrow> obj" where
  "assign a b = \<lparr> name = orElse (name b) (name a),
     workers = orElse (workers b) (workers a),
     lifecycle = orElse (lifecycle b) (lifecycle a),
     operations = orElse (operations b) (operations a),
     assets = orElse (assets b) (assets a),
     moderator = orElse (moderator b) (moderator a),
     job_id = orElse (job_id b) (job_id a),
     ex_id = orElse (ex_id b) (ex_id a),
     u_context = orElse (u_context b) (u_context a),
     u_created = orElse (u_created b) (u_created a),
     u_updated = orElse (u_updated b) (u_updated a),
     u_status = orElse (u_status b) (u_status a),
     u_recover_execution = orElse (u_recover_execution b) (u_recover_execution a),
     u_has_errors = orElse (u_has_errors b) (u_has_errors a),
     u_failureReason = orElse (u_failureReason b) (u_failureReason a),
     u_slicer_stats = orElse (u_slicer_stats b) (u_slicer_stats a) \<rparr>"

subsection \<open>Errors\<close>

text \<open>The source rejects with strings and \<^verbatim>\<open>Error\<close> objects; the model names them by
  the error kinds of the specification.\<close>

datatype error =
    NotFound
  | StorageError
  | TypeError
  | InvalidCommand
  | InvalidStatus "string option"
  | CompletedNotRestartable
  | AlreadyScheduling
  | ClusterError string
  | AssetResolution string
  | ValidationError

subsection \<open>Queries\<close>

text \<open>
  The source composes Lucene query strings. The model keeps their syntax trees:
  \<^verbatim>\<open>_status:s\<close> is \<open>Status s\<close>, \<^verbatim>\<open>_context:c\<close> is \<open>Context c\<close>, \<^verbatim>\<open>job_id: j\<close> is
  \<open>JobId j\<close>, \<^verbatim>\<open>moderator.t:c\<close> is \<open>Moderator t c\<close>, \<^verbatim>\<open>a OR b OR ...\<close> is \<open>AnyOf\<close>,
  \<^verbatim>\<open>a AND b\<close> is \<open>Both\<close> and \<^verbatim>\<open>a NOT (b)\<close> is \<open>ButNot\<close>.
\<close>

datatype query =
    Status string
  | Context string
  | JobId "uuid option"
  | Moderator string string
  | AnyOf "query list"
  | Both query query
  | ButNot query query

fun matches :: "query \<Rightarrow> obj \<Rightarrow> bool" where
  "matches (Status s) d = (u_status d = Some s)"
| "matches (Context c) d = (u_context d = Some c)"
| "matches (JobId j) d = (j \<noteq> None \<and> job_id d = j)"
| "matches (Moderator t c) d =
     (case moderator d of None \<Rightarrow> False
      | Some m \<Rightarrow> list_ex (\<lambda>(t', cs). t' = t \<and> c \<in> set cs) m)"
| "matches (AnyOf qs) d = list_ex (\<lambda>q. matches q d) qs"
| "matches (Both a b) d = (matches a d \<and> matches b d)"
| "matches (ButNot a b) d = (matches a d \<and> \<not> matches b d)"

datatype sort_order = CreatedAsc | CreatedDesc

subsection \<open>The storage backend\<close>

text \<open>
  Modelled from the spec: the backend \<^verbatim>\<open>./backends/elasticsearch_store\<close> is not among the
  sources. The specification describes it as an opaque key-value and query index with
  \<^verbatim>\<open>get\<close>, \<^verbatim>\<open>search\<close>, \<^verbatim>\<open>create\<close> and \<^verbatim>\<open>update\<close>, whose \<^verbatim>\<open>update\<close> merges a partial document
  into the stored one, whose failures are storage errors and whose missing records are
  \<open>NotFound\<close>. The model is a list of documents in creation order, keyed by the id field
  \<open>idf\<close> that the backend is built with. \<^verbatim>\<open>create\<close> appends the record and resolves with
  it; \<^verbatim>\<open>update\<close> merges the partial document into the documents with the id and resolves
  with the merged record; \<^verbatim>\<open>search\<close> filters, sorts and pages. \<open>faults\<close> is the list of
  outcomes of the coming requests (\<open>True\<close>: the request fails with a storage error); when
  it is used up, requests succeed. A backend that was shut down fails every request.
\<close>

record backend =
  docs :: "obj list"
  faults :: "bool list"
  is_shutdown :: bool

definition backend_request :: "backend \<Rightarrow> bool \<times> backend" where
  "backend_request b =
     (if is_shutdown b then (False, b)
      else case faults b of
             [] \<Rightarrow> (True, b)
           | f # fs \<Rightarrow> (\<not> f, b\<lparr>faults := fs\<rparr>))"

definition has_id :: "(obj \<Rightarrow> uuid option) \<Rightarrow> uuid option \<Rightarrow> obj \<Rightarrow> bool" where
  "has_id idf record_id d = (record_id \<noteq> None \<and> idf d = record_id)"

definition backend_get ::
  "(obj \<Rightarrow> uuid option) \<Rightarrow> uuid option \<Rightarrow> backend \<Rightarrow> (error + obj) \<times> backend" where
  "backend_get idf record_id b =
     (case backend_request b of
        (False, b') \<Rightarrow> (Inl StorageError, b')
      | (True, b') \<Rightarrow>
          (case find (has_id idf record_id) (docs b') of
             None \<Rightarrow> (Inl NotFound, b')
           | Some d \<Rightarrow> (Inr d, b')))"

definition backend_create :: "obj \<Rightarrow> backend \<Rightarrow> (error + obj) \<times> backend" where
  "backend_create record b =
     (case backend_request b of
        (False, b') \<Rightarrow> (Inl StorageError, b')
      | (True, b') \<Rightarrow> (Inr record, b'\<lparr>docs := docs b' @ [record]\<rparr>))"

definition backend_update ::
  "(obj \<Rightarrow> uuid option) \<Rightarrow> uuid option \<Rightarrow> obj \<Rightarrow> backend \<Rightarrow> (error + obj) \<times> backend" where
  "backend_update idf record_id update_spec b =
     (case backend_request b of
        (False, b') \<Rightarrow> (Inl StorageError, b')
      | (True, b') \<Rightarrow>
          (case find (has_id idf record_id) (docs b') of
             None \<Rightarrow> (Inl NotFound, b')
           | Some d \<Rightarrow>
               (Inr (assign d update_spec),
                b'\<lparr>docs := map (\<lambda>x. if has_id idf record_id x then assign x update_spec else x)
                                (docs b')\<rparr>)))"

definition created_at :: "obj \<Rightarrow> nat" where
  "created_at d = (case u_created d of None \<Rightarrow> 0 | Some t \<Rightarrow> t)"

definition sorted_docs :: "sort_order option \<Rightarrow> obj list \<Rightarrow> obj list" where
  "sorted_docs order ds =
     (case order of
        None \<Rightarrow> ds
      | Some CreatedAsc \<Rightarrow> sort_key created_at ds
      | Some CreatedDesc \<Rightarrow> rev (sort_key created_at ds))"

definition page :: "nat option \<Rightarrow> nat option \<Rightarrow> obj list \<Rightarrow> obj list" where
  "page start limit ds =
     (let rest = (case start of None \<Rightarrow> ds | Some n \<Rightarrow> drop n ds)
      in case limit of None \<Rightarrow> rest | Some n \<Rightarrow> take n rest)"

definition backend_search ::
  "query \<Rightarrow> nat option \<Rightarrow> nat option \<Rightarrow> sort_order option \<Rightarrow> backend
     \<Rightarrow> (error + obj list) \<times> backend" where
  "backend_search q start limit order b =
     (case backend_request b of
        (False, b') \<Rightarrow> (Inl StorageError, b')
      | (True, b') \<Rightarrow> (Inr (page start limit (sorted_docs order (filter (matches q) (docs b')))), b'))"

definition backend_shutdown :: "backend \<Rightarrow> (error + unit) \<times> backend" where
  "backend_shutdown b = (Inr (), b\<lparr>is_shutdown := True\<rparr>)"

subsection \<open>The storage module (lib/cluster/storage/jobs.js)\<close>

text \<open>
  The module is instantiated twice, with \<open>jobType\<close> \<^verbatim>\<open>'job'\<close> and \<^verbatim>\<open>'ex'\<close>; the backend
  is keyed by \<^verbatim>\<open>job_id\<close> for the first and by \<^verbatim>\<open>ex_id\<close> for the second. \<open>new_id\<close> is the
  value of \<^verbatim>\<open>uuid.v4()\<close> and \<open>date\<close> the value of \<^verbatim>\<open>new Date()\<close>.
\<close>

definition id_field :: "string \<Rightarrow> obj \<Rightarrow> uuid option" where
  "id_field jobType = (if jobType = ''job'' then job_id else ex_id)"

definition store_get :: "string \<Rightarrow> uuid option \<Rightarrow> backend \<Rightarrow> (error + obj) \<times> backend" where
  "store_get jobType record_id = backend_get (id_field jobType) record_id"

definition store_search ::
  "query \<Rightarrow> nat option \<Rightarrow> nat option \<Rightarrow> sort_order option \<Rightarrow> backend
     \<Rightarrow> (error + obj list) \<times> backend" where
  "store_search q start limit order = backend_search q start limit order"

definition store_create ::
  "string \<Rightarrow> uuid \<Rightarrow> nat \<Rightarrow> obj \<Rightarrow> backend \<Rightarrow> (error + obj) \<times> backend" where
  "store_create jobType new_id date record =
     (let record1 = (if jobType = ''job'' then record\<lparr>job_id := Some new_id\<rparr>
                     else record\<lparr>ex_id := Some new_id\<rparr>);
          record2 = record1\<lparr>u_context := Some jobType, u_created := Some date,
                            u_updated := Some date\<rparr>
      in backend_create record2)"

definition store_update ::
  "string \<Rightarrow> nat \<Rightarrow> uuid option \<Rightarrow> obj \<Rightarrow> backend \<Rightarrow> (error + obj) \<times> backend" where
  "store_update jobType date record_id update_spec =
     backend_update (id_field jobType) record_id (update_spec\<lparr>u_updated := Some date\<rparr>)"

definition store_shutdown :: "backend \<Rightarrow> (error + unit) \<times> backend" where
  "store_shutdown = backend_shutdown"

subsection \<open>The cluster service and the application context\<close>

text \<open>
  The jobs service is built from two injected values, \<^verbatim>\<open>context\<close> and
  \<^verbatim>\<open>cluster_service\<close>. The cluster service is a parameter of the model: a record of its
  answers. Every answer may depend on the calls the jobs service has made to it so far
  (\<open>cluster_call list\<close>), so the service may change its mind between two calls. An
  asynchronous method answers \<open>None\<close> (the promise resolves) or \<open>Some e\<close> (it rejects).
\<close>

record node =
  node_id :: string

record moderator_entry =
  canRun :: bool

datatype cluster_call =
    AllocateSlicer obj "bool option"
  | AllocateWorkers obj "nat option"
  | NotifyNode string string "uuid option"
  | CheckModerator "(string \<times> string list) list"

record cluster_service =
  cluster_availableWorkers :: "cluster_call list \<Rightarrow> nat"
  cluster_allocateSlicer :: "cluster_call list \<Rightarrow> obj \<Rightarrow> bool option \<Rightarrow> error option"
  cluster_allocateWorkers :: "cluster_call list \<Rightarrow> obj \<Rightarrow> nat option \<Rightarrow> error option"
  cluster_findNodesForJob :: "cluster_call list \<Rightarrow> uuid option \<Rightarrow> bool \<Rightarrow> node list"
  cluster_notifyNode :: "cluster_call list \<Rightarrow> string \<Rightarrow> string \<Rightarrow> uuid option \<Rightarrow> error option"
  cluster_checkModerator ::
    "cluster_call list \<Rightarrow> (string \<times> string list) list \<Rightarrow> error + moderator_entry list"

text \<open>
  Of \<^verbatim>\<open>context\<close> the service uses the name of the state connection, the job validator
  (\<open>None\<close>: \<^verbatim>\<open>validate\<close> throws) and the event bus, on which the asset subsystem answers a
  \<^verbatim>\<open>jobs_service:verify_assets\<close> request with a message \<^verbatim>\<open>{error, assets}\<close>. The answer is
  taken to arrive; a request that is never answered leaves \<^verbatim>\<open>submitJob\<close> pending for ever
  and is outside the model.
\<close>

record assets_msg =
  msg_error :: "string option"
  msg_assets :: "string list option"

record app_context =
  esConnectionState :: string
  job_validator :: "obj \<Rightarrow> obj option"
  verify_assets :: "string list \<Rightarrow> assets_msg"

subsection \<open>The state of the service, and promises\<close>

text \<open>
  The module's variables are the fields of \<open>world\<close>: the two stores, the two queues, the
  allocator's flag \<^verbatim>\<open>isJobBeingAllocated\<close>, and beside them what the service did to the
  outside: the calls made to the cluster service and the errors given to
  \<^verbatim>\<open>logger.error\<close> (the message and the error). \<open>uuid_seed\<close> is the next value of
  \<^verbatim>\<open>uuid.v4()\<close> and \<open>clock\<close> the value of \<^verbatim>\<open>new Date()\<close>.
\<close>

record world =
  job_store :: backend
  ex_store :: backend
  pendingExecutionQueue :: "obj list"
  moderatorPausedQueue :: "obj list"
  isJobBeingAllocated :: bool
  cluster_calls :: "cluster_call list"
  logged :: "(string \<times> error) list"
  uuid_seed :: nat
  clock :: nat

text \<open>
  A promise is a computation on the world that ends resolved (\<open>Inr\<close>) or rejected
  (\<open>Inl\<close>). JavaScript runs the callbacks of the service one at a time; the model runs
  every chain to its end in the order in which the source starts it. Two chains that the
  source starts together (\<^verbatim>\<open>Promise.all\<close>, \<^verbatim>\<open>Promise.map\<close>) both run, the first one first,
  and the combined promise rejects with the first rejection in the order of the list;
  which of two promises settles first in time is not modelled.
\<close>

type_synonym 'a promise = "world \<Rightarrow> (error + 'a) \<times> world"

definition resolve :: "'a \<Rightarrow> 'a promise" where
  "resolve v = (\<lambda>s. (Inr v, s))"

definition reject :: "error \<Rightarrow> 'a promise" where
  "reject e = (\<lambda>s. (Inl e, s))"

definition then_do :: "'a promise \<Rightarrow> ('a \<Rightarrow> 'b promise) \<Rightarrow> 'b promise" where
  "then_do p f = (\<lambda>s. case p s of (Inl e, s') \<Rightarrow> (Inl e, s') | (Inr v, s') \<Rightarrow> f v s')"

definition catch_do :: "'a promise \<Rightarrow> (error \<Rightarrow> 'a promise) \<Rightarrow> 'a promise" where
  "catch_do p h = (\<lambda>s. case p s of (Inl e, s') \<Rightarrow> h e s' | (Inr v, s') \<Rightarrow> (Inr v, s'))"

definition finally_do :: "'a promise \<Rightarrow> 'b promise \<Rightarrow> 'a promise" where
  "finally_do p h =
     (\<lambda>s. case p s of
             (r, s') \<Rightarrow> (case h s' of (Inl e, s'') \<Rightarrow> (Inl e, s'') | (Inr _, s'') \<Rightarrow> (r, s'')))"

definition both_results :: "error + 'a \<Rightarrow> error + 'b \<Rightarrow> error + 'a \<times> 'b" where
  "both_results r1 r2 =
     (case r1 of Inl e \<Rightarrow> Inl e
      | Inr a \<Rightarrow> (case r2 of Inl e \<Rightarrow> Inl e | Inr b \<Rightarrow> Inr (a, b)))"

definition promise_all2 :: "'a promise \<Rightarrow> 'b promise \<Rightarrow> ('a \<times> 'b) promise" where
  "promise_all2 p q =
     (\<lambda>s. case p s of (r1, s1) \<Rightarrow> (case q s1 of (r2, s2) \<Rightarrow> (both_results r1 r2, s2)))"

fun promise_all :: "'a promise list \<Rightarrow> world \<Rightarrow> (error + 'a list) \<times> world" where
  "promise_all [] s = (Inr [], s)"
| "promise_all (p # ps) s =
     (case p s of
        (r, s1) \<Rightarrow>
          (case promise_all ps s1 of
             (rs, s2) \<Rightarrow> (map_sum id (\<lambda>(v, vs). v # vs) (both_results r rs), s2)))"

text \<open>Bluebird's \<^verbatim>\<open>.map\<close>: the mapper is started on every element.\<close>

definition promise_map :: "'a list promise \<Rightarrow> ('a \<Rightarrow> 'b promise) \<Rightarrow> 'b list promise" where
  "promise_map p f = then_do p (\<lambda>xs. promise_all (map f xs))"

text \<open>
  A function of the source that throws before it has built its promise returns \<open>Inl\<close>
  here. Called inside a callback of a promise chain, the exception becomes a rejection.
\<close>

definition attempt :: "error + 'a promise \<Rightarrow> 'a promise" where
  "attempt c = (case c of Inl e \<Rightarrow> reject e | Inr p \<Rightarrow> p)"

definition logger_error :: "string \<Rightarrow> error \<Rightarrow> unit promise" where
  "logger_error msg err = (\<lambda>s. (Inr (), s\<lparr>logged := logged s @ [(msg, err)]\<rparr>))"

subsection \<open>The two stores and the cluster service, as promises\<close>

definition on_job_store :: "(backend \<Rightarrow> 'a \<times> backend) \<Rightarrow> world \<Rightarrow> 'a \<times> world" where
  "on_job_store f s = (case f (job_store s) of (r, b) \<Rightarrow> (r, s\<lparr>job_store := b\<rparr>))"

definition on_ex_store :: "(backend \<Rightarrow> 'a \<times> backend) \<Rightarrow> world \<Rightarrow> 'a \<times> world" where
  "on_ex_store f s = (case f (ex_store s) of (r, b) \<Rightarrow> (r, s\<lparr>ex_store := b\<rparr>))"

definition job_store_get :: "uuid option \<Rightarrow> obj promise" where
  "job_store_get record_id = on_job_store (store_get ''job'' record_id)"

definition job_store_create :: "obj \<Rightarrow> obj promise" where
  "job_store_create record =
     (\<lambda>s. on_job_store (store_create ''job'' (uuid_seed s) (clock s) record)
             (s\<lparr>uuid_seed := Suc (uuid_seed s)\<rparr>))"

definition job_store_update' :: "uuid option \<Rightarrow> obj \<Rightarrow> obj promise" where
  "job_store_update' record_id update_spec =
     (\<lambda>s. on_job_store (store_update ''job'' (clock s) record_id update_spec) s)"

definition job_store_shutdown :: "unit promise" where
  "job_store_shutdown = on_job_store store_shutdown"

definition ex_store_get :: "uuid option \<Rightarrow> obj promise" where
  "ex_store_get record_id = on_ex_store (store_get ''ex'' record_id)"

definition ex_store_search ::
  "query \<Rightarrow> nat option \<Rightarrow> nat option \<Rightarrow> sort_order option \<Rightarrow> obj list promise" where
  "ex_store_search q start limit order = on_ex_store (store_search q start limit order)"

definition ex_store_create :: "obj \<Rightarrow> obj promise" where
  "ex_store_create record =
     (\<lambda>s. on_ex_store (store_create ''ex'' (uuid_seed s) (clock s) record)
             (s\<lparr>uuid_seed := Suc (uuid_seed s)\<rparr>))"

definition ex_store_update' :: "uuid option \<Rightarrow> obj \<Rightarrow> obj promise" where
  "ex_store_update' record_id update_spec =
     (\<lambda>s. on_ex_store (store_update ''ex'' (clock s) record_id update_spec) s)"

definition ex_store_shutdown :: "unit promise" where
  "ex_store_shutdown = on_ex_store store_shutdown"

definition settle :: "error option \<Rightarrow> error + unit" where
  "settle r = (case r of None \<Rightarrow> Inr () | Some e \<Rightarrow> Inl e)"

definition call_allocateSlicer :: "cluster_service \<Rightarrow> obj \<Rightarrow> bool option \<Rightarrow> unit promise" where
  "call_allocateSlicer cs ex recover =
     (\<lambda>s. (settle (cluster_allocateSlicer cs (cluster_calls s) ex recover),
            s\<lparr>cluster_calls := cluster_calls s @ [AllocateSlicer ex recover]\<rparr>))"

definition call_allocateWorkers :: "cluster_service \<Rightarrow> obj \<Rightarrow> nat option \<Rightarrow> unit promise" where
  "call_allocateWorkers cs ex n =
     (\<lambda>s. (settle (cluster_allocateWorkers cs (cluster_calls s) ex n),
            s\<lparr>cluster_calls := cluster_calls s @ [AllocateWorkers ex n]\<rparr>))"

definition call_notifyNode ::
  "cluster_service \<Rightarrow> string \<Rightarrow> string \<Rightarrow> uuid option \<Rightarrow> unit promise" where
  "call_notifyNode cs nid message exid =
     (\<lambda>s. (settle (cluster_notifyNode cs (cluster_calls s) nid message exid),
            s\<lparr>cluster_calls := cluster_calls s @ [NotifyNode nid message exid]\<rparr>))"

definition call_checkModerator ::
  "cluster_service \<Rightarrow> (string \<times> string list) list \<Rightarrow> moderator_entry list promise" where
  "call_checkModerator cs connectionList =
     (\<lambda>s. (cluster_checkModerator cs (cluster_calls s) connectionList,
            s\<lparr>cluster_calls := cluster_calls s @ [CheckModerator connectionList]\<rparr>))"

subsection \<open>The admission queues\<close>

text \<open>
  Modelled from the spec: the module \<^verbatim>\<open>queue\<close> is not among the sources. The
  specification gives both queues \<^verbatim>\<open>enqueue\<close> (append), \<^verbatim>\<open>dequeue\<close> (pop-front),
  \<^verbatim>\<open>size\<close>, iteration, \<^verbatim>\<open>remove(id)\<close> and front insertion (\<^verbatim>\<open>unshift\<close>). A queue is the
  list of its elements, front first.
\<close>

definition queue_enqueue :: "obj list \<Rightarrow> obj \<Rightarrow> obj list" where
  "queue_enqueue q x = q @ [x]"

definition queue_unshift :: "obj list \<Rightarrow> obj \<Rightarrow> obj list" where
  "queue_unshift q x = x # q"

definition queue_remove :: "obj list \<Rightarrow> uuid option \<Rightarrow> obj list" where
  "queue_remove q i = filter (\<lambda>x. ex_id x \<noteq> i) q"

subsection \<open>The status model\<close>

definition VALID_STATUS :: "string list" where
  "VALID_STATUS =
     [''pending'', ''scheduling'', ''initializing'', ''running'', ''failing'', ''paused'',
      ''moderator_paused'',
      ''completed'', ''stopped'', ''rejected'', ''failed'', ''terminated'']"

definition STATE_MAPPING :: "string \<Rightarrow> string option" where
  "STATE_MAPPING =
     map_of [(''stop'', ''stopped''), (''pause'', ''paused''), (''resume'', ''running''),
             (''moderator_paused'', ''moderator_paused'')]"

definition MESSAGE_MAPPING :: "string \<Rightarrow> string option" where
  "MESSAGE_MAPPING =
     map_of [(''pause'', ''cluster:job:pause''), (''resume'', ''cluster:job:resume''),
             (''restart'', ''cluster:job:restart''), (''stop'', ''cluster:job:stop''),
             (''terminated'', ''cluster:job:stop''),
             (''moderator_paused'', ''cluster:job:pause'')]"

text \<open>
  Both maps are read at the keys they list; a key that a JavaScript object inherits
  (\<^verbatim>\<open>toString\<close>, \<^verbatim>\<open>constructor\<close>) is not a command and is not modelled.

  The source has no function \<^verbatim>\<open>isActive\<close>: it takes the active statuses as
  \<^verbatim>\<open>VALID_STATUS.slice(0, 7)\<close> (in \<^verbatim>\<open>shutdown\<close>) and the finished ones as
  \<^verbatim>\<open>VALID_STATUS.slice(7)\<close> (in \<^verbatim>\<open>getLatestExecution\<close>). \<open>isActive\<close> is membership in the
  first slice.
\<close>

definition isActive :: "string \<Rightarrow> bool" where
  "isActive s = (s \<in> set (take 7 VALID_STATUS))"

subsection \<open>The jobs service\<close>

definition ex_search :: "query \<Rightarrow> obj list promise" where
  "ex_search q =
     catch_do (then_do (ex_store_search q None (Some 10000) None) (\<lambda>jobs. resolve jobs))
       (\<lambda>err. then_do (logger_error ''could not findJob'' err) (\<lambda>_. reject err))"

text \<open>\<^verbatim>\<open>findJobs\<close> waits for the store to be set before it searches; the stores of the
  model are set from the start.\<close>

definition findJobs :: "query \<Rightarrow> obj list promise" where
  "findJobs q = ex_search q"

definition saveJob :: "obj \<Rightarrow> string \<Rightarrow> obj promise" where
  "saveJob job jobType =
     (if jobType = ''job'' then job_store_create job else ex_store_create job)"

definition enqueueJob :: "obj \<Rightarrow> unit promise" where
  "enqueueJob ex =
     (\<lambda>s. (Inr (), s\<lparr>pendingExecutionQueue := queue_enqueue (pendingExecutionQueue s) ex\<rparr>))"

text \<open>
  \<^verbatim>\<open>connectionDefaults\<close>: \<^verbatim>\<open>!stateConn\<close> holds when the state connection was not found, and
  also when it is the empty string. The source pushes the state connection onto the array
  it was given, which is the array inside the job's \<^verbatim>\<open>moderator\<close> field; the model returns
  the extended list and leaves the job's own field as it was declared.
\<close>

definition connectionDefaults ::
  "string \<Rightarrow> (string \<times> string list) list \<Rightarrow> (string \<times> string list) list" where
  "connectionDefaults stateConnection array =
     (let wasFound = list_ex (\<lambda>conn. fst conn = ''elasticsearch'') array;
          array1 = map (\<lambda>conn.
                     if fst conn = ''elasticsearch'' then
                       (case find (\<lambda>c. c = stateConnection) (snd conn) of
                          None \<Rightarrow> (fst conn, snd conn @ [stateConnection])
                        | Some stateConn \<Rightarrow>
                            if stateConn = [] then (fst conn, snd conn @ [stateConnection])
                            else conn)
                     else conn) array
      in if \<not> wasFound then array1 @ [(''elasticsearch'', [stateConnection])] else array1)"

text \<open>
  \<^verbatim>\<open>checkModerator\<close> resolves with \<^verbatim>\<open>true\<close> when the job tracks nothing, and with the
  answer of the cluster service otherwise.
\<close>

datatype moderator_response = JustTrue | Entries "moderator_entry list"

definition checkModerator ::
  "app_context \<Rightarrow> cluster_service \<Rightarrow> obj \<Rightarrow> moderator_response promise" where
  "checkModerator ctx cs job =
     (case moderator job of
        None \<Rightarrow> resolve JustTrue
      | Some m \<Rightarrow>
          (let connectionList = connectionDefaults (esConnectionState ctx) m
           in catch_do
                (then_do (call_checkModerator cs connectionList) (\<lambda>r. resolve (Entries r)))
                (\<lambda>err. then_do (logger_error ''could not check moderator'' err)
                          (\<lambda>_. reject err))))"

text \<open>
  \<^verbatim>\<open>_.every(moderatorResponse, db => db.canRun === true)\<close>: over \<^verbatim>\<open>true\<close>, which has no
  elements, every element passes.
\<close>

definition every_canRun :: "moderator_response \<Rightarrow> bool" where
  "every_canRun moderatorResponse =
     (case moderatorResponse of
        JustTrue \<Rightarrow> True
      | Entries dbs \<Rightarrow> list_all (\<lambda>db. canRun db = True) dbs)"

text \<open>JavaScript's truth value of the response, as \<^verbatim>\<open>if (canRun)\<close> reads it: \<^verbatim>\<open>true\<close> is
  true and so is every array.\<close>

definition truthy :: "moderator_response \<Rightarrow> bool" where
  "truthy moderatorResponse =
     (case moderatorResponse of JustTrue \<Rightarrow> True | Entries dbs \<Rightarrow> True)"

definition getJob :: "uuid option \<Rightarrow> obj option promise" where
  "getJob job_id' =
     catch_do (then_do (job_store_get job_id') (\<lambda>job_spec. resolve (Some job_spec)))
       (\<lambda>err. then_do (logger_error ''could not get job for job_id'' err)
                 (\<lambda>_. resolve None))"

definition getExecutionContext :: "uuid option \<Rightarrow> obj option promise" where
  "getExecutionContext ex_id' =
     catch_do (then_do (ex_store_get ex_id') (\<lambda>ex. resolve (Some ex)))
       (\<lambda>err. then_do (logger_error ''error getting execution context for ex'' err)
                 (\<lambda>_. resolve None))"

definition u_setStatus :: "obj \<Rightarrow> string option \<Rightarrow> obj option \<Rightarrow> obj promise" where
  "u_setStatus job_spec status metaData =
     (if (case status of None \<Rightarrow> False | Some st \<Rightarrow> st \<in> set VALID_STATUS) then
        catch_do
          (then_do (getExecutionContext (ex_id job_spec))
             (\<lambda>ex.
                let statusObj = (case metaData of
                                   None \<Rightarrow> empty_obj\<lparr>u_status := status\<rparr>
                                 | Some m \<Rightarrow> assign (empty_obj\<lparr>u_status := status\<rparr>) m)
                in catch_do
                     (then_do (ex_store_update' (ex_id job_spec) statusObj)
                        (\<lambda>_. resolve job_spec))
                     (\<lambda>err. then_do (logger_error ''error update ex_store, error:'' err)
                               (\<lambda>_. reject err))))
          (\<lambda>err. then_do (logger_error ''was not able to _setStatus, error:'' err)
                    (\<lambda>_. reject err))
      else reject (InvalidStatus status))"

definition createExecutionContext ::
  "app_context \<Rightarrow> cluster_service \<Rightarrow> obj \<Rightarrow> obj promise" where
  "createExecutionContext ctx cs job =
     catch_do
       (then_do
          (then_do (saveJob job ''ex'')
             (\<lambda>ex. promise_all2 (u_setStatus ex (Some ''pending'') None)
                      (checkModerator ctx cs job)))
          (\<lambda>(ex, moderatorResponse).
             let canRun = every_canRun moderatorResponse
             in (\<lambda>s. (Inr (empty_obj\<lparr>job_id := job_id ex\<rparr>),
                       if canRun then
                         s\<lparr>pendingExecutionQueue := queue_enqueue (pendingExecutionQueue s) ex\<rparr>
                       else
                         s\<lparr>moderatorPausedQueue := queue_enqueue (moderatorPausedQueue s) ex\<rparr>))))
       (\<lambda>err. then_do (logger_error ''could not create execution context'' err)
                 (\<lambda>_. reject err))"

text \<open>
  \<^verbatim>\<open>ensureAssets\<close>: the first \<^verbatim>\<open>reject\<close> or \<^verbatim>\<open>resolve\<close> reached settles the promise, so
  a message with an error rejects with that error whatever else it holds.
\<close>

definition ensureAssets :: "app_context \<Rightarrow> obj \<Rightarrow> obj promise" where
  "ensureAssets ctx job_spec =
     (case assets job_spec of
        None \<Rightarrow> resolve job_spec
      | Some names \<Rightarrow>
          (let msg = verify_assets ctx names
           in if (case msg_error msg of None \<Rightarrow> False | Some e \<Rightarrow> e \<noteq> []) then
                reject (AssetResolution (the (msg_error msg)))
              else
                (case msg_assets msg of
                   None \<Rightarrow> reject (AssetResolution ''no asset was found'')
                 | Some ids \<Rightarrow>
                     if length ids \<noteq> length names then
                       reject (AssetResolution ''fewer assets were found than specified'')
                     else resolve (job_spec\<lparr>assets := Some ids\<rparr>))))"

definition u_validateJob :: "app_context \<Rightarrow> obj \<Rightarrow> obj promise" where
  "u_validateJob ctx job_spec =
     (case job_validator ctx job_spec of
        None \<Rightarrow> reject ValidationError
      | Some validJob \<Rightarrow> resolve validJob)"

definition submitJob ::
  "app_context \<Rightarrow> cluster_service \<Rightarrow> obj \<Rightarrow> bool \<Rightarrow> obj promise" where
  "submitJob ctx cs job_spec shouldRun =
     catch_do
       (then_do
          (then_do (ensureAssets ctx job_spec)
             (\<lambda>parsedAssetJob. u_validateJob ctx parsedAssetJob))
          (\<lambda>validJob.
             let oldAssetNames = assets job_spec;
                 parsedAssets = assets validJob
             in then_do (saveJob (validJob\<lparr>assets := oldAssetNames\<rparr>) ''job'')
                  (\<lambda>job.
                     if \<not> shouldRun then resolve (empty_obj\<lparr>job_id := job_id job\<rparr>)
                     else createExecutionContext ctx cs (job\<lparr>assets := parsedAssets\<rparr>))))
       (\<lambda>err. then_do (logger_error ''could not submit job'' err) (\<lambda>_. reject err))"

text \<open>
  \<^verbatim>\<open>updateJob\<close>: the parameter \<^verbatim>\<open>job\<close> of the callback hides the parameter \<^verbatim>\<open>job\<close> of
  the function, here as in the source. \<^verbatim>\<open>getJob\<close> resolves with \<^verbatim>\<open>undefined\<close> after an
  error, and \<^verbatim>\<open>update\<close> then throws a \<open>TypeError\<close> when it sets \<^verbatim>\<open>_updated\<close>.
\<close>

definition updateJob :: "uuid option \<Rightarrow> obj \<Rightarrow> obj option promise" where
  "updateJob job_id' job =
     catch_do
       (then_do (getJob job_id')
          (\<lambda>job. case job of
                    None \<Rightarrow> reject TypeError
                  | Some job \<Rightarrow> then_do (job_store_update' job_id' job) (\<lambda>r. resolve (Some r))))
       (\<lambda>err. then_do (logger_error ''could not updateJob'' err) (\<lambda>_. resolve None))"

definition updateEX :: "uuid option \<Rightarrow> obj \<Rightarrow> obj option promise" where
  "updateEX ex_id' updateConfig =
     catch_do (then_do (ex_store_update' ex_id' updateConfig) (\<lambda>r. resolve (Some r)))
       (\<lambda>err. then_do (logger_error ''failed to update ex'' err) (\<lambda>_. resolve None))"

text \<open>
  \<^verbatim>\<open>_notifyCluster\<close> throws on an unknown notice before it builds its promise. Otherwise
  it asks for the nodes, sends the message to every one of them and waits for all.
\<close>

definition u_notifyCluster ::
  "cluster_service \<Rightarrow> uuid option \<Rightarrow> string \<Rightarrow> error + bool promise" where
  "u_notifyCluster cs ex_id' notice =
     (let slicerOnly =
            (notice = ''pause'' \<or> notice = ''resume'' \<or> notice = ''moderator_paused'')
      in case MESSAGE_MAPPING notice of
           None \<Rightarrow> Inl InvalidCommand
         | Some message \<Rightarrow>
             Inr (\<lambda>s.
               let nodes = cluster_findNodesForJob cs (cluster_calls s) ex_id' slicerOnly;
                   requests = map (\<lambda>node. call_notifyNode cs (node_id node) message ex_id')
                                nodes
               in catch_do (then_do (promise_all requests) (\<lambda>_. resolve True))
                    (\<lambda>err. then_do (logger_error ''could not notify cluster'' err)
                              (\<lambda>_. reject err)) s))"

definition u_signalJobStateChange ::
  "cluster_service \<Rightarrow> uuid option \<Rightarrow> string \<Rightarrow> string option
     \<Rightarrow> error + string option promise" where
  "u_signalJobStateChange cs ex_id' notice state =
     (case u_notifyCluster cs ex_id' notice of
        Inl e \<Rightarrow> Inl e
      | Inr notified \<Rightarrow>
          Inr (catch_do
                 (then_do notified
                    (\<lambda>_. then_do
                            (then_do (ex_store_get ex_id')
                               (\<lambda>job_spec. u_setStatus job_spec state None))
                            (\<lambda>job. resolve state)))
                 (\<lambda>err. then_do (logger_error ''could not signal job state change'' err)
                           (\<lambda>_. reject err))))"

definition notify ::
  "cluster_service \<Rightarrow> uuid option \<Rightarrow> string \<Rightarrow> error + string option promise" where
  "notify cs ex_id' state =
     (let status = STATE_MAPPING state
      in case u_signalJobStateChange cs ex_id' state status of
           Inl e \<Rightarrow> Inl e
         | Inr signalled \<Rightarrow>
             Inr (catch_do signalled
                    (\<lambda>err. then_do (logger_error ''could not notify'' err)
                              (\<lambda>_. reject err))))"

definition startJob ::
  "app_context \<Rightarrow> cluster_service \<Rightarrow> uuid option \<Rightarrow> obj option promise" where
  "startJob ctx cs job_id' =
     catch_do
       (then_do
          (then_do (getJob job_id')
             (\<lambda>job_spec. case job_spec of
                            None \<Rightarrow> reject TypeError
                          | Some job_spec \<Rightarrow> ensureAssets ctx job_spec))
          (\<lambda>assetIdJob. then_do (createExecutionContext ctx cs assetIdJob)
                           (\<lambda>r. resolve (Some r))))
       (\<lambda>err. then_do (logger_error ''could not startJob'' err) (\<lambda>_. resolve None))"

text \<open>
  \<^verbatim>\<open>restartExecution\<close>: reading \<^verbatim>\<open>_status\<close> of the \<^verbatim>\<open>undefined\<close> that
  \<^verbatim>\<open>getExecutionContext\<close> resolves with after an error throws a \<open>TypeError\<close>.
\<close>

definition restartExecution :: "uuid option \<Rightarrow> unit promise" where
  "restartExecution ex_id' =
     catch_do
       (then_do (getExecutionContext ex_id')
          (\<lambda>ex. case ex of
                   None \<Rightarrow> reject TypeError
                 | Some ex \<Rightarrow>
                     if u_status ex = Some ''completed'' then reject CompletedNotRestartable
                     else if u_status ex = Some ''scheduling'' then reject AlreadyScheduling
                     else enqueueJob (ex\<lparr>u_recover_execution := Some True\<rparr>)))
       (\<lambda>err. then_do (logger_error ''could not restart execution context'' err)
                 (\<lambda>_. resolve ()))"

text \<open>\<^verbatim>\<open>getLatestExecution\<close> resolves with an \<^verbatim>\<open>ex_id\<close> or with \<^verbatim>\<open>false\<close>.\<close>

datatype latest = NoneActive | Latest "uuid option"

definition latest_query :: "uuid option \<Rightarrow> bool \<Rightarrow> query" where
  "latest_query job_id' checkIfActive =
     (if checkIfActive then
        ButNot (Both (JobId job_id') (Context ''ex'')) (AnyOf (map Status (drop 7 VALID_STATUS)))
      else Both (JobId job_id') (Context ''ex''))"

definition getLatestExecution :: "uuid option \<Rightarrow> bool \<Rightarrow> latest promise" where
  "getLatestExecution job_id' checkIfActive =
     then_do (ex_store_search (latest_query job_id' checkIfActive) None (Some 1) (Some CreatedDesc))
       (\<lambda>ex. case ex of
                [] \<Rightarrow> if checkIfActive then resolve NoneActive else reject NotFound
              | e # _ \<Rightarrow> resolve (Latest (ex_id e)))"

text \<open>
  The allocator. \<open>allocate\<close> is the body of \<^verbatim>\<open>allocator\<close> once its test has passed; the
  flag it returns says whether the body ends in the call \<^verbatim>\<open>allocator()\<close>. The chain of
  \<^verbatim>\<open>_setStatus(executionContext, 'scheduling')\<close> has no handler for a rejection: the body
  then ends without that call and leaves \<^verbatim>\<open>isJobBeingAllocated\<close> set. The write of
  \<^verbatim>\<open>failed\<close> is started before \<^verbatim>\<open>allocator()\<close> is called and is run first.
\<close>

definition allocate :: "cluster_service \<Rightarrow> world \<Rightarrow> world \<times> bool" where
  "allocate cs s =
     (case pendingExecutionQueue s of
        [] \<Rightarrow> (s, False)
      | executionContext # rest \<Rightarrow>
          (let s1 = s\<lparr>isJobBeingAllocated := True, pendingExecutionQueue := rest\<rparr>;
               recover_execution = u_recover_execution executionContext
           in case u_setStatus executionContext (Some ''scheduling'') None s1 of
                (Inl e, s2) \<Rightarrow> (s2, False)
              | (Inr _, s2) \<Rightarrow>
                  (case then_do (call_allocateSlicer cs executionContext recover_execution)
                          (\<lambda>_. u_setStatus executionContext (Some ''initializing'') None) s2 of
                     (Inl err, s3) \<Rightarrow>
                       (let s4 = snd (logger_error ''Failure during worker allocation'' err s3);
                            s5 = s4\<lparr>isJobBeingAllocated := False\<rparr>
                        in (snd (u_setStatus executionContext (Some ''failed'') None s5), True))
                   | (Inr _, s3) \<Rightarrow>
                       (case call_allocateWorkers cs executionContext
                               (workers executionContext) s3 of
                          (Inr _, s4) \<Rightarrow> (s4\<lparr>isJobBeingAllocated := False\<rparr>, True)
                        | (Inl err, s4) \<Rightarrow>
                            (let s5 = snd (logger_error
                                             ''Workers failed to be allocated, they will be enqueued''
                                             err s4)
                             in (s5\<lparr>isJobBeingAllocated := False\<rparr>, True))))))"

text \<open>
  \<^verbatim>\<open>shutdown\<close>: the mapper is called inside the chain, where an exception of
  \<^verbatim>\<open>_signalJobStateChange\<close> is a rejection. Bluebird's \<^verbatim>\<open>.map\<close> starts the mapper on every
  execution, so all stop messages are sent, and rejects at the first rejection; the
  handler of \<^verbatim>\<open>.finally\<close> then closes the stores while the chains of the other executions
  may still have their read and their write to do. Which of them are done by then is a
  matter of timing. The model runs the chains one after the other and the handler last,
  which is one of the possible orders. What is proved below about the statuses after
  \<^verbatim>\<open>shutdown\<close> is proved for runs in which no chain rejects, where the order makes no
  difference; the stop messages and the closing of the stores do not depend on the order.
\<close>

definition shutdown_query :: query where
  "shutdown_query = AnyOf (map Status (take 7 VALID_STATUS))"

definition shutdown :: "cluster_service \<Rightarrow> string option list promise" where
  "shutdown cs =
     finally_do
       (promise_map (ex_search shutdown_query)
          (\<lambda>job. attempt (u_signalJobStateChange cs (ex_id job) ''stop'' (Some ''terminated''))))
       (promise_all2 job_store_shutdown ex_store_shutdown)"

text \<open>
  The handler of \<^verbatim>\<open>moderate_jobs:resume\<close>. Its first part walks the queue of held
  executions; \<open>release_held\<close> is what it does for one of them. Its second part
  resumes the executions that the moderator had paused.
\<close>

record db =
  db_type :: string
  db_connection :: string

definition release_held :: "app_context \<Rightarrow> cluster_service \<Rightarrow> obj \<Rightarrow> unit promise" where
  "release_held ctx cs job =
     catch_do
       (then_do (checkModerator ctx cs job)
          (\<lambda>canRun.
             if truthy canRun then
               (\<lambda>s. (Inr (),
                      s\<lparr>moderatorPausedQueue := queue_remove (moderatorPausedQueue s) (ex_id job),
                        pendingExecutionQueue := queue_unshift (pendingExecutionQueue s) job\<rparr>))
             else resolve ()))
       (\<lambda>err. then_do
                 (logger_error
                    ''error checking moderator while attempting to remove job from moderatorPausedQueue''
                    err)
                 (\<lambda>_. resolve ()))"

definition resume_query :: "db list \<Rightarrow> query" where
  "resume_query connectionList =
     Both (Status ''moderator_paused'')
       (AnyOf (map (\<lambda>d. Moderator (db_type d) (db_connection d)) connectionList))"

definition moderate_jobs_resume ::
  "app_context \<Rightarrow> cluster_service \<Rightarrow> db list \<Rightarrow> world \<Rightarrow> world" where
  "moderate_jobs_resume ctx cs connectionList s =
     (let s1 = (if length (moderatorPausedQueue s) \<noteq> 0 then
                  fold (\<lambda>job w. snd (release_held ctx cs job w)) (moderatorPausedQueue s) s
                else s)
      in snd (catch_do
                (then_do
                   (then_do (findJobs (resume_query connectionList))
                      (\<lambda>results.
                         promise_all (map (\<lambda>job. attempt (notify cs (ex_id job) ''resume''))
                                        results)))
                   (\<lambda>results. resolve ()))
                (\<lambda>err. then_do (logger_error ''could not resume job for moderator'' err)
                          (\<lambda>_. resolve ()))
                s1))"

subsection \<open>The allocator loop\<close>

text \<open>Each round of the allocator takes one execution from the pending queue, and
  nothing it calls touches that queue; so the loop ends. \<open>keeps f p\<close> says that the
  promise \<open>p\<close> leaves the part \<open>f\<close> of the world as it was.\<close>

definition keeps :: "(world \<Rightarrow> 'b) \<Rightarrow> 'a promise \<Rightarrow> bool" where
  "keeps f p = (\<forall>s. f (snd (p s)) = f s)"

lemma keeps_resolve: "keeps f (resolve v)"
  by (simp add: keeps_def resolve_def)

lemma keeps_reject: "keeps f (reject e)"
  by (simp add: keeps_def reject_def)

lemma keeps_then:
  "keeps f p \<Longrightarrow> (\<And>v. keeps f (g v)) \<Longrightarrow> keeps f (then_do p g)"
  unfolding keeps_def then_do_def
  apply (intro allI)
  subgoal for s
    apply (cases "p s")
    subgoal for r s'
      apply (cases r)
       apply (simp, metis snd_conv)
      apply (simp, metis snd_conv)
      done
    done
  done

lemma keeps_catch:
  "keeps f p \<Longrightarrow> (\<And>e. keeps f (h e)) \<Longrightarrow> keeps f (catch_do p h)"
  unfolding keeps_def catch_do_def
  apply (intro allI)
  subgoal for s
    apply (cases "p s")
    subgoal for r s'
      apply (cases r)
       apply (simp, metis snd_conv)
      apply (simp, metis snd_conv)
      done
    done
  done

lemma keeps_logger:
  "(\<And>s l. f (s\<lparr>logged := l\<rparr>) = f s) \<Longrightarrow> keeps f (logger_error m e)"
  by (simp add: keeps_def logger_error_def)

lemma keeps_ex_store_get:
  "(\<And>s b. f (s\<lparr>ex_store := b\<rparr>) = f s) \<Longrightarrow> keeps f (ex_store_get i)"
  by (simp add: ex_store_get_def keeps_def on_ex_store_def split: prod.splits)

lemma keeps_ex_store_update:
  "(\<And>s b. f (s\<lparr>ex_store := b\<rparr>) = f s) \<Longrightarrow> keeps f (ex_store_update' i u)"
  by (simp add: ex_store_update'_def keeps_def on_ex_store_def split: prod.splits)

lemma keeps_getExecutionContext:
  "(\<And>s l. f (s\<lparr>logged := l\<rparr>) = f s) \<Longrightarrow> (\<And>s b. f (s\<lparr>ex_store := b\<rparr>) = f s)
     \<Longrightarrow> keeps f (getExecutionContext i)"
  unfolding getExecutionContext_def
  by (intro keeps_catch keeps_then keeps_resolve keeps_logger keeps_ex_store_get)

lemma keeps_setStatus:
  "(\<And>s l. f (s\<lparr>logged := l\<rparr>) = f s) \<Longrightarrow> (\<And>s b. f (s\<lparr>ex_store := b\<rparr>) = f s)
     \<Longrightarrow> keeps f (u_setStatus j st m)"
  unfolding u_setStatus_def Let_def
  by (auto intro!: keeps_catch keeps_then keeps_resolve keeps_reject keeps_logger
        keeps_ex_store_update keeps_getExecutionContext)

lemma keeps_allocateSlicer:
  "(\<And>s l. f (s\<lparr>cluster_calls := l\<rparr>) = f s) \<Longrightarrow> keeps f (call_allocateSlicer cs ex r)"
  by (simp add: keeps_def call_allocateSlicer_def)

lemma keeps_allocateWorkers:
  "(\<And>s l. f (s\<lparr>cluster_calls := l\<rparr>) = f s) \<Longrightarrow> keeps f (call_allocateWorkers cs ex r)"
  by (simp add: keeps_def call_allocateWorkers_def)

lemma keepsD: "keeps f p \<Longrightarrow> p s = (r, s') \<Longrightarrow> f s' = f s"
  by (metis keeps_def snd_conv)

lemma keeps_snd: "keeps f p \<Longrightarrow> f (snd (p s)) = f s"
  by (simp add: keeps_def)

lemma setStatus_pending: "keeps pendingExecutionQueue (u_setStatus j st m)"
  by (rule keeps_setStatus) simp_all

lemma slicer_chain_pending:
  "keeps pendingExecutionQueue
     (then_do (call_allocateSlicer cs ex r) (\<lambda>_. u_setStatus ex st m))"
  by (intro keeps_then keeps_allocateSlicer setStatus_pending) simp

lemma allocateWorkers_pending: "keeps pendingExecutionQueue (call_allocateWorkers cs ex n)"
  by (rule keeps_allocateWorkers) simp

lemma logger_pending: "keeps pendingExecutionQueue (logger_error m e)"
  by (rule keeps_logger) simp

lemma allocate_queue:
  "pendingExecutionQueue s = x # rest \<Longrightarrow> pendingExecutionQueue (fst (allocate cs s)) = rest"
  unfolding allocate_def Let_def
  by (auto split: prod.splits sum.splits
      dest!: keepsD[OF setStatus_pending] keepsD[OF slicer_chain_pending]
             keepsD[OF allocateWorkers_pending]
      simp: keeps_snd[OF setStatus_pending] keeps_snd[OF logger_pending])

function allocator :: "cluster_service \<Rightarrow> world \<Rightarrow> world" where
  "allocator cs s =
     (if \<not> isJobBeingAllocated s \<and> length (pendingExecutionQueue s) > 0
           \<and> cluster_availableWorkers cs (cluster_calls s) \<ge> 2 then
        (case allocate cs s of
           (s', True) \<Rightarrow> allocator cs s'
         | (s', False) \<Rightarrow> s')
      else s)"
  by pat_completeness auto
termination
proof (relation "measure (\<lambda>(cs, s). length (pendingExecutionQueue s))")
  show "wf (measure (\<lambda>(cs, s). length (pendingExecutionQueue s)))"
    by simp
next
  fix cs s x1 x2
  assume guard: "\<not> isJobBeingAllocated s \<and> 0 < length (pendingExecutionQueue s)
                   \<and> 2 \<le> cluster_availableWorkers cs (cluster_calls s)"
    and body: "(x1, x2) = allocate cs s"
  from guard obtain x rest where q: "pendingExecutionQueue s = x # rest"
    by (cases "pendingExecutionQueue s") auto
  from allocate_queue[OF q, of cs] body have "pendingExecutionQueue x1 = rest"
    by (metis fst_conv)
  with q show "((cs, x1), (cs, s)) \<in> measure (\<lambda>(cs, s). length (pendingExecutionQueue s))"
    by simp
qed

subsection \<open>Vocabulary of the properties\<close>

text \<open>A backend is healthy when it is open and no fault is due: its requests succeed.\<close>

definition healthy :: "backend \<Rightarrow> bool" where
  "healthy b = (faults b = [] \<and> \<not> is_shutdown b)"

text \<open>What a successful status write of \<open>st\<close> at time \<open>t\<close> makes of the stored
  executions: the one with the id \<open>i\<close> gets the status and the time of the update.\<close>

definition with_status :: "uuid \<Rightarrow> string \<Rightarrow> nat \<Rightarrow> obj \<Rightarrow> obj" where
  "with_status i st t d = (if ex_id d = Some i then d\<lparr>u_status := Some st, u_updated := Some t\<rparr> else d)"

text \<open>The store holds an execution with the id \<open>i\<close>.\<close>

definition stored :: "backend \<Rightarrow> uuid \<Rightarrow> bool" where
  "stored b i = list_ex (\<lambda>d. ex_id d = Some i) (docs b)"

text \<open>The answers of the cluster service to the notifications of the nodes, in the
  order in which \<^verbatim>\<open>_notifyCluster\<close> sends them, and the calls these notifications are.\<close>

fun notify_answers ::
  "cluster_service \<Rightarrow> cluster_call list \<Rightarrow> node list \<Rightarrow> string \<Rightarrow> uuid option \<Rightarrow> error option list" where
  "notify_answers cs h [] message exid = []"
| "notify_answers cs h (n # ns) message exid =
     cluster_notifyNode cs h (node_id n) message exid
       # notify_answers cs (h @ [NotifyNode (node_id n) message exid]) ns message exid"

definition notifications :: "node list \<Rightarrow> string \<Rightarrow> uuid option \<Rightarrow> cluster_call list" where
  "notifications nodes message exid = map (\<lambda>n. NotifyNode (node_id n) message exid) nodes"

text \<open>The notices that go to the slicer's node only.\<close>

definition slicer_only :: "string \<Rightarrow> bool" where
  "slicer_only notice = (notice = ''pause'' \<or> notice = ''resume'' \<or> notice = ''moderator_paused'')"

text \<open>The error of the first notification that failed, if one did.\<close>

definition first_failure :: "error option list \<Rightarrow> error option" where
  "first_failure answers = (case find (\<lambda>a. a \<noteq> None) answers of None \<Rightarrow> None | Some a \<Rightarrow> a)"

text \<open>The stored document with the id \<open>i\<close> (\<open>idf\<close> is \<open>job_id\<close> for the job store and
  \<open>ex_id\<close> for the execution store).\<close>

definition lookup :: "(obj \<Rightarrow> uuid option) \<Rightarrow> backend \<Rightarrow> uuid \<Rightarrow> obj option" where
  "lookup idf b i = find (\<lambda>d. idf d = Some i) (docs b)"

text \<open>The record that \<^verbatim>\<open>create\<close> of the storage module makes of \<open>record\<close> and hands to the
  backend.\<close>

definition created_record :: "string \<Rightarrow> uuid \<Rightarrow> nat \<Rightarrow> obj \<Rightarrow> obj" where
  "created_record jobType new_id date record =
     (if jobType = ''job'' then record\<lparr>job_id := Some new_id\<rparr> else record\<lparr>ex_id := Some new_id\<rparr>)
       \<lparr>u_context := Some jobType, u_created := Some date, u_updated := Some date\<rparr>"

text \<open>The admission decision read off the job and the cluster service: the job tracks
  nothing, or every entry of the cluster's answer has \<^verbatim>\<open>canRun\<close> true.\<close>

definition admitted :: "app_context \<Rightarrow> cluster_service \<Rightarrow> obj \<Rightarrow> world \<Rightarrow> bool" where
  "admitted ctx cs job s =
     (case moderator job of
        None \<Rightarrow> True
      | Some m \<Rightarrow>
          (case cluster_checkModerator cs (cluster_calls s)
                  (connectionDefaults (esConnectionState ctx) m) of
             Inl e \<Rightarrow> False
           | Inr entries \<Rightarrow> list_all (\<lambda>db. canRun db = True) entries))"

text \<open>The moderator check of the job, if one is made, does not fail.\<close>

definition moderator_answers :: "app_context \<Rightarrow> cluster_service \<Rightarrow> obj \<Rightarrow> world \<Rightarrow> bool" where
  "moderator_answers ctx cs job s =
     (case moderator job of
        None \<Rightarrow> True
      | Some m \<Rightarrow>
          (case cluster_checkModerator cs (cluster_calls s)
                  (connectionDefaults (esConnectionState ctx) m) of
             Inl e \<Rightarrow> False
           | Inr entries \<Rightarrow> True))"

text \<open>The calls \<^verbatim>\<open>checkModerator\<close> makes to the cluster service for a job.\<close>

definition consulted :: "app_context \<Rightarrow> obj \<Rightarrow> cluster_call list" where
  "consulted ctx job =
     (case moderator job of
        None \<Rightarrow> []
      | Some m \<Rightarrow> [CheckModerator (connectionDefaults (esConnectionState ctx) m)])"

text \<open>The world after a successful write of the status \<open>st\<close> to the execution \<open>i\<close>.\<close>

definition status_written :: "uuid \<Rightarrow> string \<Rightarrow> world \<Rightarrow> world" where
  "status_written i st s =
     s\<lparr>ex_store := (ex_store s)\<lparr>docs := map (with_status i st (clock s)) (docs (ex_store s))\<rparr>\<rparr>"

text \<open>An execution after the write of the status terminated at time \<open>t\<close>.\<close>

definition terminated_at :: "nat \<Rightarrow> obj \<Rightarrow> obj" where
  "terminated_at t d = d\<lparr>u_status := Some ''terminated'', u_updated := Some t\<rparr>"

text \<open>The stop notifications for a list of executions: for each in turn, one to every
  node the cluster service names for it.\<close>

fun stop_calls :: "cluster_service \<Rightarrow> cluster_call list \<Rightarrow> obj list \<Rightarrow> cluster_call list" where
  "stop_calls cs h [] = []"
| "stop_calls cs h (x # xs) =
     (let c = notifications (cluster_findNodesForJob cs h (ex_id x) False) ''cluster:job:stop''
                (ex_id x)
      in c @ stop_calls cs (h @ c) xs)"

text \<open>The execution has a status, and the status is active.\<close>

definition active_execution :: "obj \<Rightarrow> bool" where
  "active_execution d = (case u_status d of None \<Rightarrow> False | Some st \<Rightarrow> isActive st)"

text \<open>Concrete inputs: a cluster service whose calls all succeed, with one node for
  every execution, the same service with unreachable nodes, and a world with one job and
  one execution of it in a given status.\<close>

definition cluster_up :: cluster_service where
  "cluster_up = \<lparr> cluster_availableWorkers = (\<lambda>h. 5),
     cluster_allocateSlicer = (\<lambda>h ex recover. None),
     cluster_allocateWorkers = (\<lambda>h ex n. None),
     cluster_findNodesForJob = (\<lambda>h exid slicerOnly. [\<lparr>node_id = ''node-1''\<rparr>]),
     cluster_notifyNode = (\<lambda>h nid message exid. None),
     cluster_checkModerator = (\<lambda>h connectionList. Inr [\<lparr>canRun = True\<rparr>]) \<rparr>"

definition cluster_deaf :: cluster_service where
  "cluster_deaf = cluster_up\<lparr>cluster_notifyNode :=
     (\<lambda>h nid message exid. Some (ClusterError ''node unreachable''))\<rparr>"

definition one_execution :: "string \<Rightarrow> world" where
  "one_execution st =
     \<lparr> job_store = \<lparr>docs = [empty_obj\<lparr>name := Some ''J1'', job_id := Some 1,
                                  u_context := Some ''job''\<rparr>],
                    faults = [], is_shutdown = False\<rparr>,
       ex_store = \<lparr>docs = [empty_obj\<lparr>name := Some ''J1'', job_id := Some 1, ex_id := Some 2,
                                 u_context := Some ''ex'', u_status := Some st\<rparr>],
                   faults = [], is_shutdown = False\<rparr>,
       pendingExecutionQueue = [], moderatorPausedQueue = [], isJobBeingAllocated = False,
       cluster_calls = [], logged = [], uuid_seed = 3, clock = 7 \<rparr>"

definition context_plain :: app_context where
  "context_plain = \<lparr> esConnectionState = ''default'', job_validator = Some,
     verify_assets = (\<lambda>names. \<lparr>msg_error = None, msg_assets = Some names\<rparr>) \<rparr>"

definition cluster_refusing :: cluster_service where
  "cluster_refusing = cluster_up\<lparr>cluster_checkModerator :=
     (\<lambda>h connectionList. Inr [\<lparr>canRun = False\<rparr>])\<rparr>"

definition one_held :: world where
  "one_held =
     \<lparr> job_store = \<lparr>docs = [empty_obj\<lparr>name := Some ''J1'', job_id := Some 1,
                                  moderator := Some [(''elasticsearch'', [''hot''])],
                                  u_context := Some ''job''\<rparr>],
                    faults = [], is_shutdown = False\<rparr>,
       ex_store = \<lparr>docs = [empty_obj\<lparr>name := Some ''J1'', job_id := Some 1, ex_id := Some 2,
                                 moderator := Some [(''elasticsearch'', [''hot''])],
                                 u_context := Some ''ex'', u_status := Some ''pending''\<rparr>],
                   faults = [], is_shutdown = False\<rparr>,
       pendingExecutionQueue = [],
       moderatorPausedQueue = [empty_obj\<lparr>name := Some ''J1'', job_id := Some 1, ex_id := Some 2,
                                 moderator := Some [(''elasticsearch'', [''hot''])],
                                 u_context := Some ''ex''\<rparr>],
       isJobBeingAllocated = False,
       cluster_calls = [], logged = [], uuid_seed = 3, clock = 7 \<rparr>"

definition cluster_no_slicer :: cluster_service where
  "cluster_no_slicer = cluster_up\<lparr>cluster_allocateSlicer :=
     (\<lambda>h ex recover. Some (ClusterError ''no slicer slot''))\<rparr>"

definition cluster_no_workers :: cluster_service where
  "cluster_no_workers = cluster_up\<lparr>cluster_allocateWorkers :=
     (\<lambda>h ex n. Some (ClusterError ''no workers''))\<rparr>"

definition one_pending :: world where
  "one_pending = (one_execution ''pending'')
     \<lparr>pendingExecutionQueue :=
        [empty_obj\<lparr>name := Some ''J1'', workers := Some 2, job_id := Some 1, ex_id := Some 2,
           u_context := Some ''ex''\<rparr>]\<rparr>"

definition two_executions :: world where
  "two_executions =
     \<lparr> job_store = \<lparr>docs = [empty_obj\<lparr>name := Some ''J1'', job_id := Some 1,
                                  u_context := Some ''job''\<rparr>],
                    faults = [], is_shutdown = False\<rparr>,
       ex_store = \<lparr>docs = [empty_obj\<lparr>name := Some ''J1'', job_id := Some 1, ex_id := Some 2,
                                 u_context := Some ''ex'', u_status := Some ''running''\<rparr>,
                           empty_obj\<lparr>name := Some ''J1'', job_id := Some 1, ex_id := Some 3,
                                 u_context := Some ''ex'', u_status := Some ''completed''\<rparr>],
                   faults = [], is_shutdown = False\<rparr>,
       pendingExecutionQueue = [], moderatorPausedQueue = [], isJobBeingAllocated = False,
       cluster_calls = [], logged = [], uuid_seed = 4, clock = 9 \<rparr>"

definition one_job_failing_update :: world where
  "one_job_failing_update =
     (one_execution ''running'')\<lparr>job_store := (job_store (one_execution ''running''))
                                                \<lparr>faults := [False, True]\<rparr>\<rparr>"

section \<open>Properties\<close>

subsection \<open>The classification of statuses\<close>

lemma isActive_iff:
  "isActive s \<longleftrightarrow>
     s \<in> {''pending'', ''scheduling'', ''initializing'', ''running'', ''failing'', ''paused'',
           ''moderator_paused''}"
  by (simp add: isActive_def VALID_STATUS_def)

lemma valid_split: "s \<in> set VALID_STATUS \<Longrightarrow> (s \<notin> set (drop 7 VALID_STATUS)) = isActive s"
  unfolding isActive_def VALID_STATUS_def by auto

text \<open>
  Claim C4. \<open>isActive s\<close> holds exactly for the first seven statuses (pending,
  scheduling, initializing, running, failing, paused, moderator_paused) and fails for
  completed, stopped, rejected, failed and terminated. The same classification is the one
  the service uses: on an execution of the job whose status is one of the valid
  statuses, the active filter of \<^verbatim>\<open>getLatestExecution\<close> matches exactly when the status is
  active, and the query of \<^verbatim>\<open>shutdown\<close> matches an execution exactly when it has an
  active status.
\<close>

theorem isActive_first_seven:
  "(isActive s \<longleftrightarrow>
      s \<in> {''pending'', ''scheduling'', ''initializing'', ''running'', ''failing'', ''paused'',
            ''moderator_paused''})
   \<and> (s \<in> {''completed'', ''stopped'', ''rejected'', ''failed'', ''terminated''}
        \<longrightarrow> \<not> isActive s)
   \<and> (job_id d = Some j \<and> u_context d = Some ''ex'' \<and> u_status d = Some s
          \<and> s \<in> set VALID_STATUS
        \<longrightarrow> (matches (latest_query (Some j) True) d \<longleftrightarrow> isActive s))
   \<and> (matches shutdown_query d \<longleftrightarrow> (\<exists>t. u_status d = Some t \<and> isActive t))"
proof (intro conjI)
  show "isActive s \<longleftrightarrow>
          s \<in> {''pending'', ''scheduling'', ''initializing'', ''running'', ''failing'',
                ''paused'', ''moderator_paused''}"
    by (rule isActive_iff)
  show "s \<in> {''completed'', ''stopped'', ''rejected'', ''failed'', ''terminated''}
          \<longrightarrow> \<not> isActive s"
    by (auto simp: isActive_iff)
  show "job_id d = Some j \<and> u_context d = Some ''ex'' \<and> u_status d = Some s
          \<and> s \<in> set VALID_STATUS
        \<longrightarrow> (matches (latest_query (Some j) True) d \<longleftrightarrow> isActive s)"
  proof
    assume h: "job_id d = Some j \<and> u_context d = Some ''ex'' \<and> u_status d = Some s
                 \<and> s \<in> set VALID_STATUS"
    have "matches (latest_query (Some j) True) d \<longleftrightarrow> s \<notin> set (drop 7 VALID_STATUS)"
      using h by (auto simp: latest_query_def list_ex_iff)
    with h show "matches (latest_query (Some j) True) d \<longleftrightarrow> isActive s"
      by (simp add: valid_split)
  qed
  show "matches shutdown_query d \<longleftrightarrow> (\<exists>t. u_status d = Some t \<and> isActive t)"
    by (auto simp: shutdown_query_def list_ex_iff isActive_def)
qed

theorem isActive_first_seven_witness:
  "\<not> isActive ''completed'' \<and> isActive ''running''
   \<and> matches (latest_query (Some 1) True)
        (empty_obj\<lparr>job_id := Some 1, ex_id := Some 2, u_context := Some ''ex'',
           u_status := Some ''running''\<rparr>)
   \<and> \<not> matches (latest_query (Some 1) True)
          (empty_obj\<lparr>job_id := Some 1, ex_id := Some 2, u_context := Some ''ex'',
             u_status := Some ''completed''\<rparr>)"
  using isActive_first_seven[of "''completed''"
          "empty_obj\<lparr>job_id := Some 1, ex_id := Some 2, u_context := Some ''ex'',
             u_status := Some ''completed''\<rparr>" 1]
        isActive_first_seven[of "''running''"
          "empty_obj\<lparr>job_id := Some 1, ex_id := Some 2, u_context := Some ''ex'',
             u_status := Some ''running''\<rparr>" 1]
  by (simp add: empty_obj_def VALID_STATUS_def)

subsection \<open>Requests to a healthy store\<close>

lemma backend_request_healthy: "healthy b \<Longrightarrow> backend_request b = (True, b)"
  by (simp add: healthy_def backend_request_def)

lemma world_ex_store_same [simp]: "s\<lparr>ex_store := ex_store s\<rparr> = s"
  by simp

lemma find_stored:
  "stored b i \<Longrightarrow> \<exists>d. find (has_id ex_id (Some i)) (docs b) = Some d \<and> ex_id d = Some i"
  unfolding stored_def list_ex_iff
  by (cases "find (has_id ex_id (Some i)) (docs b)") (auto simp: find_None_iff find_Some_iff has_id_def)

lemma ex_store_get_healthy:
  assumes "healthy (ex_store s)" "stored (ex_store s) i"
  shows "\<exists>d. ex_store_get (Some i) s = (Inr d, s) \<and> ex_id d = Some i"
proof -
  from find_stored[OF assms(2)] obtain d where d: "find (has_id ex_id (Some i)) (docs (ex_store s)) = Some d" "ex_id d = Some i"
    by blast
  have "ex_store_get (Some i) s = (Inr d, s)"
    using d assms(1)
    by (simp add: ex_store_get_def on_ex_store_def store_get_def backend_get_def id_field_def backend_request_healthy)
  with d show ?thesis by blast
qed

lemma assign_status:
  "assign x (empty_obj\<lparr>u_status := Some st, u_updated := Some t\<rparr>) = x\<lparr>u_status := Some st, u_updated := Some t\<rparr>"
  by (simp add: assign_def empty_obj_def orElse_def)

lemma ex_store_update_healthy:
  assumes "healthy (ex_store s)" "stored (ex_store s) i"
  shows "\<exists>d. ex_store_update' (Some i) (empty_obj\<lparr>u_status := Some st\<rparr>) s =
           (Inr d, s\<lparr>ex_store := (ex_store s)\<lparr>docs := map (with_status i st (clock s)) (docs (ex_store s))\<rparr>\<rparr>)"
proof -
  from find_stored[OF assms(2)] obtain d where d: "find (has_id ex_id (Some i)) (docs (ex_store s)) = Some d"
    by blast
  have m: "(\<lambda>x. if has_id ex_id (Some i) x then assign x (empty_obj\<lparr>u_status := Some st, u_updated := Some (clock s)\<rparr>) else x)
        = with_status i st (clock s)"
    by (rule ext) (simp add: has_id_def with_status_def assign_status)
  show ?thesis
    using d assms(1)
    by (simp add: ex_store_update'_def on_ex_store_def store_update_def backend_update_def id_field_def
        backend_request_healthy m)
qed

lemma getExecutionContext_healthy:
  assumes "healthy (ex_store s)" "stored (ex_store s) i"
  shows "\<exists>d. getExecutionContext (Some i) s = (Inr (Some d), s)"
  using ex_store_get_healthy[OF assms]
  by (auto simp: getExecutionContext_def catch_do_def then_do_def resolve_def)

lemma setStatus_healthy:
  assumes "healthy (ex_store s)" "stored (ex_store s) i" "st \<in> set VALID_STATUS" "ex_id j = Some i"
  shows "u_setStatus j (Some st) None s =
           (Inr j, s\<lparr>ex_store := (ex_store s)\<lparr>docs := map (with_status i st (clock s)) (docs (ex_store s))\<rparr>\<rparr>)"
proof -
  from getExecutionContext_healthy[OF assms(1,2)] obtain d where g: "getExecutionContext (Some i) s = (Inr (Some d), s)"
    by blast
  from ex_store_update_healthy[OF assms(1,2), of st] obtain d' where
    u: "ex_store_update' (Some i) (empty_obj\<lparr>u_status := Some st\<rparr>) s =
           (Inr d', s\<lparr>ex_store := (ex_store s)\<lparr>docs := map (with_status i st (clock s)) (docs (ex_store s))\<rparr>\<rparr>)"
    by blast
  show ?thesis
    using assms(3,4) g u
    by (simp add: u_setStatus_def catch_do_def then_do_def resolve_def)
qed

lemma setStatus_invalid: "u_setStatus j None m s = (Inl (InvalidStatus None), s)"
  by (simp add: u_setStatus_def reject_def)

subsection \<open>Notifying the nodes of an execution\<close>

lemma promise_all_notify_snd:
  "snd (promise_all (map (\<lambda>node. call_notifyNode cs (node_id node) m e) nodes) s)
     = s\<lparr>cluster_calls := cluster_calls s @ notifications nodes m e\<rparr>"
proof (induction nodes arbitrary: s)
  case Nil
  then show ?case by (simp add: notifications_def)
next
  case (Cons n ns)
  have "snd (promise_all (map (\<lambda>node. call_notifyNode cs (node_id node) m e) (n # ns)) s)
      = snd (promise_all (map (\<lambda>node. call_notifyNode cs (node_id node) m e) ns)
               (s\<lparr>cluster_calls := cluster_calls s @ [NotifyNode (node_id n) m e]\<rparr>))"
    by (simp add: call_notifyNode_def split: prod.splits)
  also have "\<dots> = s\<lparr>cluster_calls := cluster_calls s @ notifications (n # ns) m e\<rparr>"
    by (simp add: Cons.IH notifications_def)
  finally show ?case .
qed

lemma promise_all_notify_fst:
  "fst (promise_all (map (\<lambda>node. call_notifyNode cs (node_id node) m e) nodes) s)
     = (case find (\<lambda>a. a \<noteq> None) (notify_answers cs (cluster_calls s) nodes m e) of
          None \<Rightarrow> Inr (map (\<lambda>_. ()) nodes)
        | Some a \<Rightarrow> Inl (the a))"
proof (induction nodes arbitrary: s)
  case Nil
  then show ?case by simp
next
  case (Cons n ns)
  let ?s1 = "s\<lparr>cluster_calls := cluster_calls s @ [NotifyNode (node_id n) m e]\<rparr>"
  have step: "promise_all (map (\<lambda>node. call_notifyNode cs (node_id node) m e) (n # ns)) s
      = (case promise_all (map (\<lambda>node. call_notifyNode cs (node_id node) m e) ns) ?s1 of
           (rs, s2) \<Rightarrow> (map_sum id (\<lambda>(v, vs). v # vs)
               (both_results (settle (cluster_notifyNode cs (cluster_calls s) (node_id n) m e)) rs), s2))"
    by (simp add: call_notifyNode_def)
  show ?case
    unfolding step using Cons.IH[of ?s1]
    by (cases "cluster_notifyNode cs (cluster_calls s) (node_id n) m e")
       (auto simp: both_results_def settle_def split: prod.splits option.splits sum.splits)
qed

lemma first_failure_None: "first_failure answers = None \<longleftrightarrow> list_all (\<lambda>a. a = None) answers"
  by (induction answers) (auto simp: first_failure_def split: option.splits)

lemma first_failure_Some: "first_failure answers = Some e \<Longrightarrow> Some e \<in> set answers"
  by (induction answers) (auto simp: first_failure_def split: option.splits if_splits)

lemma promise_all_notify:
  "promise_all (map (\<lambda>node. call_notifyNode cs (node_id node) m e) nodes) s
     = ((case first_failure (notify_answers cs (cluster_calls s) nodes m e) of
          None \<Rightarrow> Inr (map (\<lambda>_. ()) nodes)
        | Some err \<Rightarrow> Inl err),
        s\<lparr>cluster_calls := cluster_calls s @ notifications nodes m e\<rparr>)"
proof -
  have "find (\<lambda>a. a \<noteq> None) xs = Some a \<Longrightarrow> \<exists>err. a = Some err" for xs :: "error option list" and a
    by (auto simp: find_Some_iff)
  then have f: "(case find (\<lambda>a. a \<noteq> None) xs of None \<Rightarrow> Inr v | Some a \<Rightarrow> Inl (the a))
      = (case first_failure xs of None \<Rightarrow> Inr v | Some err \<Rightarrow> Inl err)" for xs :: "error option list" and v :: "unit list"
    by (auto simp: first_failure_def split: option.splits)
  show ?thesis
  proof (rule prod_eqI)
    show "fst (promise_all (map (\<lambda>node. call_notifyNode cs (node_id node) m e) nodes) s) =
      fst (case first_failure (notify_answers cs (cluster_calls s) nodes m e) of
             None \<Rightarrow> Inr (map (\<lambda>_. ()) nodes) | Some err \<Rightarrow> Inl err,
           s\<lparr>cluster_calls := cluster_calls s @ notifications nodes m e\<rparr>)"
      unfolding promise_all_notify_fst f by simp
    show "snd (promise_all (map (\<lambda>node. call_notifyNode cs (node_id node) m e) nodes) s) =
      snd (case first_failure (notify_answers cs (cluster_calls s) nodes m e) of
             None \<Rightarrow> Inr (map (\<lambda>_. ()) nodes) | Some err \<Rightarrow> Inl err,
           s\<lparr>cluster_calls := cluster_calls s @ notifications nodes m e\<rparr>)"
      unfolding promise_all_notify_snd by simp
  qed
qed

lemma notifyCluster_run:
  assumes "MESSAGE_MAPPING notice = Some message"
  shows "attempt (u_notifyCluster cs exid notice) s =
     (let nodes = cluster_findNodesForJob cs (cluster_calls s) exid (slicer_only notice);
          s1 = s\<lparr>cluster_calls := cluster_calls s @ notifications nodes message exid\<rparr>
      in case first_failure (notify_answers cs (cluster_calls s) nodes message exid) of
           None \<Rightarrow> (Inr True, s1)
         | Some err \<Rightarrow> (Inl err, s1\<lparr>logged := logged s @ [(''could not notify cluster'', err)]\<rparr>))"
  using assms
  by (simp add: u_notifyCluster_def attempt_def Let_def slicer_only_def catch_do_def then_do_def
      promise_all_notify resolve_def reject_def logger_error_def split: option.splits)

lemma signal_failed:
  assumes "MESSAGE_MAPPING notice = Some message"
    and "first_failure (notify_answers cs (cluster_calls s)
           (cluster_findNodesForJob cs (cluster_calls s) exid (slicer_only notice)) message exid) = Some err"
  shows "attempt (u_signalJobStateChange cs exid notice state) s =
     (Inl err, s\<lparr>cluster_calls := cluster_calls s @ notifications
                   (cluster_findNodesForJob cs (cluster_calls s) exid (slicer_only notice)) message exid,
                 logged := logged s @ [(''could not notify cluster'', err),
                                       (''could not signal job state change'', err)]\<rparr>)"
proof -
  from assms(1) obtain p where p: "u_notifyCluster cs exid notice = Inr p"
    by (auto simp: u_notifyCluster_def Let_def)
  have run: "p s = (Inl err, s\<lparr>cluster_calls := cluster_calls s @ notifications
                   (cluster_findNodesForJob cs (cluster_calls s) exid (slicer_only notice)) message exid,
                 logged := logged s @ [(''could not notify cluster'', err)]\<rparr>)"
    using notifyCluster_run[OF assms(1), where cs=cs and exid=exid and s=s] assms(2) p
    by (simp add: attempt_def Let_def)
  show ?thesis
    by (simp add: u_signalJobStateChange_def p attempt_def catch_do_def then_do_def run
        logger_error_def reject_def)
qed

lemma signal_ok:
  assumes "MESSAGE_MAPPING notice = Some message"
    and "first_failure (notify_answers cs (cluster_calls s)
           (cluster_findNodesForJob cs (cluster_calls s) (Some i) (slicer_only notice)) message (Some i)) = None"
    and "healthy (ex_store s)" "stored (ex_store s) i" "st \<in> set VALID_STATUS"
  shows "attempt (u_signalJobStateChange cs (Some i) notice (Some st)) s =
     (Inr (Some st),
      s\<lparr>cluster_calls := cluster_calls s @ notifications
                   (cluster_findNodesForJob cs (cluster_calls s) (Some i) (slicer_only notice)) message (Some i),
        ex_store := (ex_store s)\<lparr>docs := map (with_status i st (clock s)) (docs (ex_store s))\<rparr>\<rparr>)"
proof -
  let ?s1 = "s\<lparr>cluster_calls := cluster_calls s @ notifications
                   (cluster_findNodesForJob cs (cluster_calls s) (Some i) (slicer_only notice)) message (Some i)\<rparr>"
  from assms(1) obtain p where p: "u_notifyCluster cs (Some i) notice = Inr p"
    by (auto simp: u_notifyCluster_def Let_def)
  have run: "p s = (Inr True, ?s1)"
    using notifyCluster_run[OF assms(1), where cs=cs and exid="Some i" and s=s] assms(2) p
    by (simp add: attempt_def Let_def)
  have h1: "healthy (ex_store ?s1)" "stored (ex_store ?s1) i"
    using assms(3,4) by simp_all
  from ex_store_get_healthy[OF h1] obtain d where
    g: "ex_store_get (Some i) ?s1 = (Inr d, ?s1)" and di: "ex_id d = Some i"
    by blast
  have w: "u_setStatus d (Some st) None ?s1 =
      (Inr d, ?s1\<lparr>ex_store := (ex_store ?s1)\<lparr>docs := map (with_status i st (clock ?s1)) (docs (ex_store ?s1))\<rparr>\<rparr>)"
    by (rule setStatus_healthy[OF h1 assms(5) di])
  show ?thesis
    by (simp add: u_signalJobStateChange_def p attempt_def catch_do_def then_do_def run g w resolve_def)
qed

lemma signal_invalid:
  assumes "MESSAGE_MAPPING notice = Some message"
    and "first_failure (notify_answers cs (cluster_calls s)
           (cluster_findNodesForJob cs (cluster_calls s) exid (slicer_only notice)) message exid) = None"
  shows "\<exists>e s'. attempt (u_signalJobStateChange cs exid notice None) s = (Inl e, s')
           \<and> cluster_calls s' = cluster_calls s @ notifications
                   (cluster_findNodesForJob cs (cluster_calls s) exid (slicer_only notice)) message exid
           \<and> docs (ex_store s') = docs (ex_store s)
           \<and> (healthy (ex_store s) \<and> (\<exists>i. exid = Some i \<and> stored (ex_store s) i) \<longrightarrow> e = InvalidStatus None)"
proof -
  let ?s1 = "s\<lparr>cluster_calls := cluster_calls s @ notifications
                   (cluster_findNodesForJob cs (cluster_calls s) exid (slicer_only notice)) message exid\<rparr>"
  from assms(1) obtain p where p: "u_notifyCluster cs exid notice = Inr p"
    by (auto simp: u_notifyCluster_def Let_def)
  have run: "p s = (Inr True, ?s1)"
    using notifyCluster_run[OF assms(1), where cs=cs and exid=exid and s=s] assms(2) p
    by (simp add: attempt_def Let_def)
  obtain r s2 where g: "ex_store_get exid ?s1 = (r, s2)" by (cases "ex_store_get exid ?s1")
  have frame: "cluster_calls s2 = cluster_calls ?s1" "docs (ex_store s2) = docs (ex_store s)"
    using g
    by (auto simp: ex_store_get_def on_ex_store_def store_get_def backend_get_def backend_request_def
        split: prod.splits if_splits list.splits option.splits bool.splits)
  have good: "healthy (ex_store s) \<and> (\<exists>i. exid = Some i \<and> stored (ex_store s) i) \<Longrightarrow> \<exists>d. r = Inr d"
  proof -
    assume a: "healthy (ex_store s) \<and> (\<exists>i. exid = Some i \<and> stored (ex_store s) i)"
    then obtain i where i: "exid = Some i" "stored (ex_store s) i" by blast
    have "healthy (ex_store ?s1)" "stored (ex_store ?s1) i" using a i by simp_all
    from ex_store_get_healthy[OF this] g i show ?thesis by auto
  qed
  show ?thesis
  proof (cases r)
    case (Inl e)
    with good have ng: "\<not> (healthy (ex_store s) \<and> (\<exists>i. exid = Some i \<and> stored (ex_store s) i))" by auto
    have "attempt (u_signalJobStateChange cs exid notice None) s
        = (Inl e, s2\<lparr>logged := logged s2 @ [(''could not signal job state change'', e)]\<rparr>)"
      by (simp add: u_signalJobStateChange_def p attempt_def catch_do_def then_do_def run g Inl
          logger_error_def reject_def)
    with frame ng show ?thesis by auto
  next
    case (Inr d)
    have "attempt (u_signalJobStateChange cs exid notice None) s
        = (Inl (InvalidStatus None), s2\<lparr>logged := logged s2 @ [(''could not signal job state change'', InvalidStatus None)]\<rparr>)"
      by (simp add: u_signalJobStateChange_def p attempt_def catch_do_def then_do_def run g Inr
          logger_error_def reject_def setStatus_invalid)
    with frame show ?thesis by auto
  qed
qed

lemma notify_attempt:
  "attempt (notify cs exid command) s =
     (case attempt (u_signalJobStateChange cs exid command (STATE_MAPPING command)) s of
        (Inl e, s') \<Rightarrow> (if MESSAGE_MAPPING command = None then (Inl e, s')
                         else (Inl e, s'\<lparr>logged := logged s' @ [(''could not notify'', e)]\<rparr>))
      | (Inr v, s') \<Rightarrow> (Inr v, s'))"
  by (auto simp: notify_def u_signalJobStateChange_def u_notifyCluster_def Let_def attempt_def
      catch_do_def then_do_def reject_def logger_error_def split: option.splits sum.splits prod.splits)

subsection \<open>The notify command\<close>

lemma STATE_MAPPING_cases:
  "STATE_MAPPING command = Some status \<Longrightarrow>
     (command = ''stop'' \<and> status = ''stopped'') \<or> (command = ''pause'' \<and> status = ''paused'')
     \<or> (command = ''resume'' \<and> status = ''running'')
     \<or> (command = ''moderator_paused'' \<and> status = ''moderator_paused'')"
  by (auto simp: STATE_MAPPING_def split: if_splits)

lemma STATE_MAPPING_valid: "STATE_MAPPING command = Some status \<Longrightarrow> status \<in> set VALID_STATUS"
  by (drule STATE_MAPPING_cases) (auto simp: VALID_STATUS_def)

lemma STATE_MAPPING_message: "STATE_MAPPING command = Some status \<Longrightarrow> \<exists>message. MESSAGE_MAPPING command = Some message"
  by (drule STATE_MAPPING_cases) (auto simp: MESSAGE_MAPPING_def)

lemma chain_after:
  "p s = (Inr v, s1) \<Longrightarrow> catch_do (then_do p k) h s = catch_do (k v) h s1"
  by (simp add: catch_do_def then_do_def)

lemma signal_calls:
  assumes "MESSAGE_MAPPING notice = Some message"
  shows "cluster_calls (snd (attempt (u_signalJobStateChange cs exid notice state) s))
     = cluster_calls s @ notifications
         (cluster_findNodesForJob cs (cluster_calls s) exid (slicer_only notice)) message exid"
proof (cases "first_failure (notify_answers cs (cluster_calls s)
           (cluster_findNodesForJob cs (cluster_calls s) exid (slicer_only notice)) message exid)")
  case (Some err)
  show ?thesis by (simp add: signal_failed[OF assms Some])
next
  case None
  let ?s1 = "s\<lparr>cluster_calls := cluster_calls s @ notifications
                   (cluster_findNodesForJob cs (cluster_calls s) exid (slicer_only notice)) message exid\<rparr>"
  from assms obtain p where p: "u_notifyCluster cs exid notice = Inr p"
    by (auto simp: u_notifyCluster_def Let_def)
  have run: "p s = (Inr True, ?s1)"
    using notifyCluster_run[OF assms, where cs=cs and exid=exid and s=s] None p
    by (simp add: attempt_def Let_def)
  have k: "keeps cluster_calls
     (catch_do (then_do (then_do (ex_store_get exid) (\<lambda>job_spec. u_setStatus job_spec state None))
                  (\<lambda>job. resolve state))
        (\<lambda>err. then_do (logger_error ''could not signal job state change'' err) (\<lambda>_. reject err)))"
    by (intro keeps_catch keeps_then keeps_resolve keeps_reject keeps_logger keeps_ex_store_get
        keeps_setStatus) simp_all
  show ?thesis
    by (simp add: u_signalJobStateChange_def p attempt_def chain_after[where p=p and s=s, OF run] keeps_snd[OF k])
qed

text \<open>
  Claim C3. For a command of the command-to-status map, \<^verbatim>\<open>notify(ex_id, command)\<close> sends
  the mapped cluster message to every node the cluster service names for the execution
  (the slicer's node only for pause, resume and moderator_paused). If a notification
  fails, the call rejects with the error of a failed notification and the execution
  store is left as it was. If all notifications succeed (and the store is healthy and
  holds the execution), the status of the command-to-status map is written to the
  execution and returned.
\<close>

theorem notify_status_after_notifications:
  assumes "STATE_MAPPING command = Some status"
  shows "\<exists>message. MESSAGE_MAPPING command = Some message \<and>
     (let nodes = cluster_findNodesForJob cs (cluster_calls s) (Some i) (slicer_only command);
          answers = notify_answers cs (cluster_calls s) nodes message (Some i);
          result = attempt (notify cs (Some i) command) s
      in cluster_calls (snd result) = cluster_calls s @ notifications nodes message (Some i)
         \<and> (\<not> list_all (\<lambda>a. a = None) answers \<longrightarrow>
               (\<exists>e. fst result = Inl e \<and> Some e \<in> set answers) \<and> ex_store (snd result) = ex_store s)
         \<and> (list_all (\<lambda>a. a = None) answers \<and> healthy (ex_store s) \<and> stored (ex_store s) i \<longrightarrow>
               fst result = Inr (Some status)
               \<and> docs (ex_store (snd result)) = map (with_status i status (clock s)) (docs (ex_store s))))"
proof -
  from STATE_MAPPING_message[OF assms] obtain message where m: "MESSAGE_MAPPING command = Some message"
    by blast
  let ?nodes = "cluster_findNodesForJob cs (cluster_calls s) (Some i) (slicer_only command)"
  let ?answers = "notify_answers cs (cluster_calls s) ?nodes message (Some i)"
  let ?result = "attempt (notify cs (Some i) command) s"
  have valid: "status \<in> set VALID_STATUS" by (rule STATE_MAPPING_valid[OF assms])
  have failed: "(\<exists>e. fst ?result = Inl e \<and> Some e \<in> set ?answers) \<and> ex_store (snd ?result) = ex_store s
        \<and> cluster_calls (snd ?result) = cluster_calls s @ notifications ?nodes message (Some i)"
    if "\<not> list_all (\<lambda>a. a = None) ?answers"
  proof -
    from that obtain err where ff: "first_failure ?answers = Some err"
      by (cases "first_failure ?answers") (auto simp: first_failure_None)
    show ?thesis
      using first_failure_Some[OF ff]
      by (simp add: notify_attempt assms m signal_failed[OF m ff])
  qed
  have calls: "cluster_calls (snd ?result) = cluster_calls s @ notifications ?nodes message (Some i)"
  proof -
    obtain r s' where sg: "attempt (u_signalJobStateChange cs (Some i) command (STATE_MAPPING command)) s = (r, s')"
      by (cases "attempt (u_signalJobStateChange cs (Some i) command (STATE_MAPPING command)) s")
    with signal_calls[OF m, where cs=cs and exid="Some i" and state="STATE_MAPPING command" and s=s]
    have "cluster_calls s' = cluster_calls s @ notifications ?nodes message (Some i)" by simp
    then show ?thesis
      by (cases r) (simp_all add: notify_attempt m sg)
  qed
  have ok: "fst ?result = Inr (Some status)
        \<and> docs (ex_store (snd ?result)) = map (with_status i status (clock s)) (docs (ex_store s))"
    if "list_all (\<lambda>a. a = None) ?answers \<and> healthy (ex_store s) \<and> stored (ex_store s) i"
  proof -
    from that have ff: "first_failure ?answers = None" by (simp add: first_failure_None)
    show ?thesis
      using that by (simp add: notify_attempt assms signal_ok[OF m ff _ _ valid])
  qed
  show ?thesis
    apply (rule exI[of _ message])
    apply (simp only: Let_def m)
    using failed ok calls by blast
qed

text \<open>
  Claim C10. \<^verbatim>\<open>notify(ex_id, 'restart')\<close> passes the command check: \<^verbatim>\<open>restart\<close> has a
  cluster message, \<^verbatim>\<open>cluster:job:restart\<close>, which is sent to all nodes of the execution.
  It has no status in the command-to-status map, so the call always rejects, after the
  messages were sent, and no stored document changes; when the notifications succeeded
  and the execution was read, the rejection is the invalid status \<^verbatim>\<open>undefined\<close>.
\<close>

theorem notify_restart_rejects:
  "\<exists>e. (\<exists>p. notify cs (Some i) ''restart'' = Inr p)
     \<and> MESSAGE_MAPPING ''restart'' = Some ''cluster:job:restart''
     \<and> STATE_MAPPING ''restart'' = None
     \<and> (let nodes = cluster_findNodesForJob cs (cluster_calls s) (Some i) False;
             answers = notify_answers cs (cluster_calls s) nodes ''cluster:job:restart'' (Some i);
             result = attempt (notify cs (Some i) ''restart'') s
         in fst result = Inl e
            \<and> cluster_calls (snd result)
                = cluster_calls s @ notifications nodes ''cluster:job:restart'' (Some i)
            \<and> docs (ex_store (snd result)) = docs (ex_store s)
            \<and> (list_all (\<lambda>a. a = None) answers \<and> healthy (ex_store s) \<and> stored (ex_store s) i
                 \<longrightarrow> e = InvalidStatus None))"
proof -
  have m: "MESSAGE_MAPPING ''restart'' = Some ''cluster:job:restart''"
    by (simp add: MESSAGE_MAPPING_def)
  have st: "STATE_MAPPING ''restart'' = None"
    by (simp add: STATE_MAPPING_def)
  have so: "slicer_only ''restart'' = False"
    by (simp add: slicer_only_def)
  have p: "\<exists>p. notify cs (Some i) ''restart'' = Inr p"
    by (simp add: notify_def u_signalJobStateChange_def u_notifyCluster_def m st Let_def)
  let ?nodes = "cluster_findNodesForJob cs (cluster_calls s) (Some i) False"
  let ?answers = "notify_answers cs (cluster_calls s) ?nodes ''cluster:job:restart'' (Some i)"
  let ?result = "attempt (notify cs (Some i) ''restart'') s"
  have "\<exists>e. fst ?result = Inl e
            \<and> cluster_calls (snd ?result)
                = cluster_calls s @ notifications ?nodes ''cluster:job:restart'' (Some i)
            \<and> docs (ex_store (snd ?result)) = docs (ex_store s)
            \<and> (list_all (\<lambda>a. a = None) ?answers \<and> healthy (ex_store s) \<and> stored (ex_store s) i
                 \<longrightarrow> e = InvalidStatus None)"
  proof (cases "first_failure ?answers")
    case (Some err)
    then have "\<not> list_all (\<lambda>a. a = None) ?answers"
      using first_failure_None[of ?answers] by simp
    then show ?thesis
      using signal_failed[OF m, where cs=cs and exid="Some i" and s=s and err=err and state=None] Some
      by (simp add: notify_attempt m st so)
  next
    case None
    from signal_invalid[OF m, where cs=cs and exid="Some i" and s=s] None obtain e s' where
      r: "attempt (u_signalJobStateChange cs (Some i) ''restart'' None) s = (Inl e, s')"
      and c: "cluster_calls s' = cluster_calls s @ notifications ?nodes ''cluster:job:restart'' (Some i)"
      and d: "docs (ex_store s') = docs (ex_store s)"
      and v: "healthy (ex_store s) \<and> stored (ex_store s) i \<longrightarrow> e = InvalidStatus None"
      by (auto simp: so)
    show ?thesis
      using c d v by (simp add: notify_attempt m st r)
  qed
  with p m st show ?thesis
    by (simp only: Let_def) blast
qed

theorem notify_status_after_notifications_witness:
  "STATE_MAPPING ''pause'' = Some ''paused''
   \<and> fst (attempt (notify cluster_up (Some 2) ''pause'') (one_execution ''running''))
       = Inr (Some ''paused'')
   \<and> map u_status (docs (ex_store (snd (attempt (notify cluster_up (Some 2) ''pause'')
                                          (one_execution ''running'')))))
       = [Some ''paused'']
   \<and> fst (attempt (notify cluster_deaf (Some 2) ''pause'') (one_execution ''running''))
       = Inl (ClusterError ''node unreachable'')
   \<and> ex_store (snd (attempt (notify cluster_deaf (Some 2) ''pause'') (one_execution ''running'')))
       = ex_store (one_execution ''running'')"
proof -
  have sm: "STATE_MAPPING ''pause'' = Some ''paused''"
    by (simp add: STATE_MAPPING_def)
  show ?thesis
    using notify_status_after_notifications[OF sm, where cs=cluster_up and s="one_execution ''running''" and i=2]
      notify_status_after_notifications[OF sm, where cs=cluster_deaf and s="one_execution ''running''" and i=2]
    by (simp add: sm MESSAGE_MAPPING_def cluster_up_def cluster_deaf_def one_execution_def
        slicer_only_def healthy_def stored_def with_status_def empty_obj_def Let_def)
qed

theorem notify_restart_rejects_witness:
  "fst (attempt (notify cluster_up (Some 2) ''restart'') (one_execution ''running''))
     = Inl (InvalidStatus None)
   \<and> cluster_calls (snd (attempt (notify cluster_up (Some 2) ''restart'') (one_execution ''running'')))
       = [NotifyNode ''node-1'' ''cluster:job:restart'' (Some 2)]
   \<and> map u_status (docs (ex_store (snd (attempt (notify cluster_up (Some 2) ''restart'')
                                          (one_execution ''running'')))))
       = [Some ''running'']"
  using notify_restart_rejects[where cs=cluster_up and i=2 and s="one_execution ''running''"]
  by (auto simp: cluster_up_def one_execution_def healthy_def stored_def notifications_def
      empty_obj_def Let_def)

subsection \<open>Restarting an execution\<close>

lemma has_id_Some: "has_id idf (Some i) = (\<lambda>d. idf d = Some i)"
  by (rule ext) (simp add: has_id_def)

lemma ex_store_get_found:
  "healthy (ex_store s) \<Longrightarrow> lookup ex_id (ex_store s) i = Some ex
     \<Longrightarrow> ex_store_get (Some i) s = (Inr ex, s)"
  by (simp add: ex_store_get_def on_ex_store_def store_get_def backend_get_def id_field_def
      backend_request_healthy has_id_Some lookup_def)

lemma job_store_get_found:
  "healthy (job_store s) \<Longrightarrow> lookup job_id (job_store s) i = Some job
     \<Longrightarrow> job_store_get (Some i) s = (Inr job, s)"
  by (simp add: job_store_get_def on_job_store_def store_get_def backend_get_def id_field_def
      backend_request_healthy has_id_Some lookup_def)

lemma restartExecution_resolves: "fst (restartExecution exid s) = Inr ()"
  by (simp add: restartExecution_def catch_do_def then_do_def resolve_def logger_error_def
      split: prod.splits sum.splits)

text \<open>
  Claim C5, as amended. \<^verbatim>\<open>restartExecution(ex_id)\<close> never rejects: it always resolves with
  no value. When the execution is read from a healthy store and its status is completed
  or scheduling, the error (\<open>CompletedNotRestartable\<close>, \<open>AlreadyScheduling\<close>) is raised
  inside the chain, given to the logger and not passed to the caller, and nothing else
  changes: the execution is not enqueued. For any other status the record that was read,
  with \<^verbatim>\<open>_recover_execution\<close> set to true, is appended to the tail of the pending queue and
  the stores are left as they were, so the persisted status does not change.
\<close>

theorem restartExecution_logs_and_resolves:
  "fst (restartExecution exid s) = Inr ()
   \<and> (healthy (ex_store s) \<and> lookup ex_id (ex_store s) i = Some ex \<longrightarrow>
        restartExecution (Some i) s =
          (Inr (),
           if u_status ex = Some ''completed'' then
             s\<lparr>logged := logged s @ [(''could not restart execution context'',
                                       CompletedNotRestartable)]\<rparr>
           else if u_status ex = Some ''scheduling'' then
             s\<lparr>logged := logged s @ [(''could not restart execution context'',
                                       AlreadyScheduling)]\<rparr>
           else
             s\<lparr>pendingExecutionQueue :=
                 pendingExecutionQueue s @ [ex\<lparr>u_recover_execution := Some True\<rparr>]\<rparr>))"
proof (intro conjI impI)
  show "fst (restartExecution exid s) = Inr ()" by (rule restartExecution_resolves)
next
  assume h: "healthy (ex_store s) \<and> lookup ex_id (ex_store s) i = Some ex"
  then have g: "ex_store_get (Some i) s = (Inr ex, s)" by (simp add: ex_store_get_found)
  show "restartExecution (Some i) s =
          (Inr (),
           if u_status ex = Some ''completed'' then
             s\<lparr>logged := logged s @ [(''could not restart execution context'',
                                       CompletedNotRestartable)]\<rparr>
           else if u_status ex = Some ''scheduling'' then
             s\<lparr>logged := logged s @ [(''could not restart execution context'',
                                       AlreadyScheduling)]\<rparr>
           else
             s\<lparr>pendingExecutionQueue :=
                 pendingExecutionQueue s @ [ex\<lparr>u_recover_execution := Some True\<rparr>]\<rparr>)"
    by (simp add: restartExecution_def getExecutionContext_def catch_do_def then_do_def g
        resolve_def reject_def logger_error_def enqueueJob_def queue_enqueue_def)
qed

text \<open>
  Claim C5 as stated fails: for a completed execution the call resolves, and the caller
  sees no \<open>CompletedNotRestartable\<close>; the error is only logged.
\<close>

theorem restartExecution_completed_counterexample:
  "restartExecution (Some 2) (one_execution ''completed'') =
     (Inr (), (one_execution ''completed'')
                \<lparr>logged := [(''could not restart execution context'', CompletedNotRestartable)]\<rparr>)"
  by (simp add: restartExecution_def getExecutionContext_def catch_do_def then_do_def
      resolve_def reject_def logger_error_def ex_store_get_def on_ex_store_def store_get_def
      backend_get_def backend_request_def id_field_def has_id_def one_execution_def empty_obj_def)

theorem restartExecution_logs_and_resolves_witness:
  "restartExecution (Some 2) (one_execution ''running'') =
     (Inr (), (one_execution ''running'')
        \<lparr>pendingExecutionQueue :=
           [empty_obj\<lparr>name := Some ''J1'', job_id := Some 1, ex_id := Some 2,
              u_context := Some ''ex'', u_status := Some ''running'',
              u_recover_execution := Some True\<rparr>]\<rparr>)
   \<and> map u_status (docs (ex_store (snd (restartExecution (Some 2) (one_execution ''running'')))))
       = [Some ''running'']"
proof -
  have h: "healthy (ex_store (one_execution ''running''))
      \<and> lookup ex_id (ex_store (one_execution ''running'')) 2
          = Some (empty_obj\<lparr>name := Some ''J1'', job_id := Some 1, ex_id := Some 2,
                    u_context := Some ''ex'', u_status := Some ''running''\<rparr>)"
    by (simp add: healthy_def lookup_def one_execution_def empty_obj_def)
  from restartExecution_logs_and_resolves[where s="one_execution ''running''" and i=2
      and ex="empty_obj\<lparr>name := Some ''J1'', job_id := Some 1, ex_id := Some 2,
                    u_context := Some ''ex'', u_status := Some ''running''\<rparr>"] h
  have r: "restartExecution (Some 2) (one_execution ''running'') =
     (Inr (), (one_execution ''running'')
        \<lparr>pendingExecutionQueue :=
           pendingExecutionQueue (one_execution ''running'') @
           [empty_obj\<lparr>name := Some ''J1'', job_id := Some 1, ex_id := Some 2,
              u_context := Some ''ex'', u_status := Some ''running'',
              u_recover_execution := Some True\<rparr>]\<rparr>)"
    by (simp add: empty_obj_def)
  show ?thesis
    unfolding r by (simp add: one_execution_def empty_obj_def)
qed

subsection \<open>Updating a job\<close>

lemma updateJob_resolves: "\<exists>v. fst (updateJob jid partial s) = Inr v"
  by (simp add: updateJob_def catch_do_def then_do_def resolve_def logger_error_def
      split: prod.splits sum.splits)

lemma job_store_get_docs:
  "docs (job_store (snd (job_store_get jid s))) = docs (job_store s)"
  by (simp add: job_store_get_def on_job_store_def store_get_def backend_get_def backend_request_def
      split: prod.splits if_splits list.splits option.splits bool.splits)

lemma job_store_get_logged:
  "logged (snd (job_store_get jid s)) = logged s"
  by (simp add: job_store_get_def on_job_store_def split: prod.splits)

lemma job_store_update_failed_docs:
  "job_store_update' jid u s = (Inl e, s2) \<Longrightarrow> docs (job_store s2) = docs (job_store s)"
  by (auto simp: job_store_update'_def on_job_store_def store_update_def backend_update_def
      backend_request_def split: prod.splits if_splits list.splits option.splits bool.splits)

lemma updateJob_unread:
  assumes "job_store_get jid s = (Inl e, s1)"
  shows "updateJob jid partial s =
      (Inr None, s1\<lparr>logged := logged s1 @ [(''could not get job for job_id'', e),
                                           (''could not updateJob'', TypeError)]\<rparr>)"
  by (simp add: updateJob_def getJob_def catch_do_def then_do_def assms resolve_def reject_def
      logger_error_def)

text \<open>What the call does once the job is read. The record handed to the store's update is
  the job that was read: the parameter of the callback hides the partial of the caller.\<close>

lemma updateJob_read:
  assumes "job_store_get jid s = (Inr job, s1)"
  shows "updateJob jid partial s =
      (case job_store_update' jid job s1 of
         (Inr r, s2) \<Rightarrow> (Inr (Some r), s2)
       | (Inl e2, s2) \<Rightarrow> (Inr None, s2\<lparr>logged := logged s2 @ [(''could not updateJob'', e2)]\<rparr>))"
  by (simp add: updateJob_def getJob_def catch_do_def then_do_def assms resolve_def reject_def
      logger_error_def split: prod.splits sum.splits)

text \<open>
  Claim C9, as amended. \<^verbatim>\<open>updateJob(job_id, partial)\<close> never rejects. When the job
  cannot be read (it is absent, or the store fails), the errors are given to the logger
  and not passed to the caller: the call resolves with \<^verbatim>\<open>undefined\<close>. When the job is
  read, the call asks the store for one update of that \<^verbatim>\<open>job_id\<close>: if the update
  succeeds, the call resolves with the record the update returns; if it fails, the error
  is given to the logger and the call resolves with \<^verbatim>\<open>undefined\<close>. Whenever the call
  resolves with \<^verbatim>\<open>undefined\<close>, the documents of the job store are as they were. Which
  fields the update writes is not part of this statement.
\<close>

theorem updateJob_logs_and_resolves:
  "(\<exists>v. fst (updateJob jid partial s) = Inr v)
   \<and> (job_store_get jid s = (Inl e, after) \<longrightarrow>
        updateJob jid partial s =
          (Inr None, after\<lparr>logged := logged after @ [(''could not get job for job_id'', e),
                                               (''could not updateJob'', TypeError)]\<rparr>)
        \<and> docs (job_store after) = docs (job_store s))
   \<and> (job_store_get jid s = (Inr job, after) \<longrightarrow>
        (\<exists>update_spec.
           updateJob jid partial s =
             (case job_store_update' jid update_spec after of
                (Inr r, s2) \<Rightarrow> (Inr (Some r), s2)
              | (Inl e2, s2) \<Rightarrow>
                  (Inr None, s2\<lparr>logged := logged s2 @ [(''could not updateJob'', e2)]\<rparr>))))
   \<and> (fst (updateJob jid partial s) = Inr None \<longrightarrow>
        docs (job_store (snd (updateJob jid partial s))) = docs (job_store s))"
proof (intro conjI impI)
  show "\<exists>v. fst (updateJob jid partial s) = Inr v" by (rule updateJob_resolves)
next
  assume g: "job_store_get jid s = (Inl e, after)"
  show "updateJob jid partial s =
          (Inr None, after\<lparr>logged := logged after @ [(''could not get job for job_id'', e),
                                               (''could not updateJob'', TypeError)]\<rparr>)"
    by (rule updateJob_unread[OF g])
  show "docs (job_store after) = docs (job_store s)"
    using job_store_get_docs[of jid s] g by simp
next
  assume g: "job_store_get jid s = (Inr job, after)"
  show "\<exists>update_spec.
           updateJob jid partial s =
             (case job_store_update' jid update_spec after of
                (Inr r, s2) \<Rightarrow> (Inr (Some r), s2)
              | (Inl e2, s2) \<Rightarrow>
                  (Inr None, s2\<lparr>logged := logged s2 @ [(''could not updateJob'', e2)]\<rparr>))"
    using updateJob_read[OF g] by blast
next
  assume n: "fst (updateJob jid partial s) = Inr None"
  obtain r after where g: "job_store_get jid s = (r, after)" by (cases "job_store_get jid s")
  have d1: "docs (job_store after) = docs (job_store s)"
    using job_store_get_docs[of jid s] g by simp
  show "docs (job_store (snd (updateJob jid partial s))) = docs (job_store s)"
  proof (cases r)
    case (Inl e)
    with g have "job_store_get jid s = (Inl e, after)" by simp
    from updateJob_unread[OF this] d1 show ?thesis by simp
  next
    case (Inr job)
    with g have gj: "job_store_get jid s = (Inr job, after)" by simp
    obtain r2 s2 where u: "job_store_update' jid job after = (r2, s2)"
      by (cases "job_store_update' jid job after")
    show ?thesis
    proof (cases r2)
      case (Inl e2)
      with u have "docs (job_store s2) = docs (job_store after)"
        by (auto dest: job_store_update_failed_docs)
      with d1 show ?thesis
        using updateJob_read[OF gj, of partial] u Inl by simp
    next
      case (Inr rec)
      then have "fst (updateJob jid partial s) = Inr (Some rec)"
        using updateJob_read[OF gj, of partial] u by simp
      with n show ?thesis by simp
    qed
  qed
qed

text \<open>
  Claim C9 as stated fails twice. For an absent job the call resolves with
  \<^verbatim>\<open>undefined\<close>, and the caller sees no \<open>NotFound\<close>. For the stored job 1, an update of
  the name to J2 leaves the stored name J1: the partial of the caller is not applied.
\<close>

theorem updateJob_counterexample:
  "updateJob (Some 9) (empty_obj\<lparr>name := Some ''J2''\<rparr>) (one_execution ''running'') =
     (Inr None, (one_execution ''running'')
        \<lparr>logged := [(''could not get job for job_id'', NotFound),
                     (''could not updateJob'', TypeError)]\<rparr>)
   \<and> map name (docs (job_store (one_execution ''running''))) = [Some ''J1'']
   \<and> map name (docs (job_store (snd (updateJob (Some 1) (empty_obj\<lparr>name := Some ''J2''\<rparr>)
                                        (one_execution ''running'')))))
       = [Some ''J1'']"
  by (simp add: updateJob_def getJob_def catch_do_def then_do_def resolve_def reject_def
      logger_error_def job_store_get_def job_store_update'_def on_job_store_def store_get_def
      store_update_def backend_get_def backend_update_def
      backend_request_def id_field_def has_id_def one_execution_def empty_obj_def assign_def orElse_def)

theorem updateJob_logs_and_resolves_witness:
  "job_store_get (Some 9) (one_execution ''running'') = (Inl NotFound, one_execution ''running'')
   \<and> updateJob (Some 9) (empty_obj\<lparr>name := Some ''J2''\<rparr>) (one_execution ''running'') =
       (Inr None, (one_execution ''running'')
          \<lparr>logged := [(''could not get job for job_id'', NotFound),
                       (''could not updateJob'', TypeError)]\<rparr>)
   \<and> docs (job_store (snd (updateJob (Some 9) (empty_obj\<lparr>name := Some ''J2''\<rparr>)
                               (one_execution ''running''))))
       = docs (job_store (one_execution ''running''))
   \<and> fst (job_store_get (Some 1) (one_execution ''running''))
       = Inr (empty_obj\<lparr>name := Some ''J1'', job_id := Some 1, u_context := Some ''job''\<rparr>)
   \<and> (\<exists>update_spec.
         updateJob (Some 1) (empty_obj\<lparr>name := Some ''J2''\<rparr>) (one_execution ''running'') =
           (case job_store_update' (Some 1) update_spec (one_execution ''running'') of
              (Inr r, s2) \<Rightarrow> (Inr (Some r), s2)
            | (Inl e2, s2) \<Rightarrow>
                (Inr None, s2\<lparr>logged := logged s2 @ [(''could not updateJob'', e2)]\<rparr>)))
   \<and> fst (updateJob (Some 1) (empty_obj\<lparr>name := Some ''J2''\<rparr>) one_job_failing_update)
       = Inr None
   \<and> docs (job_store (snd (updateJob (Some 1) (empty_obj\<lparr>name := Some ''J2''\<rparr>)
                               one_job_failing_update)))
       = docs (job_store one_job_failing_update)"
proof -
  let ?s = "one_execution ''running''"
  let ?p = "empty_obj\<lparr>name := Some ''J2''\<rparr>"
  let ?job = "empty_obj\<lparr>name := Some ''J1'', job_id := Some 1, u_context := Some ''job''\<rparr>"
  have g9: "job_store_get (Some 9) ?s = (Inl NotFound, ?s)"
    by (simp add: job_store_get_def on_job_store_def store_get_def backend_get_def
      backend_request_def id_field_def has_id_def one_execution_def empty_obj_def)
  have g1: "job_store_get (Some 1) ?s = (Inr ?job, ?s)"
    by (simp add: job_store_get_def on_job_store_def store_get_def backend_get_def
      backend_request_def id_field_def has_id_def one_execution_def empty_obj_def)
  have f: "fst (updateJob (Some 1) ?p one_job_failing_update) = Inr None"
    by (simp add: one_job_failing_update_def updateJob_def getJob_def catch_do_def then_do_def
      resolve_def reject_def
      logger_error_def job_store_get_def job_store_update'_def on_job_store_def store_get_def
      store_update_def backend_get_def backend_update_def
      backend_request_def id_field_def has_id_def one_execution_def empty_obj_def)
  note a = updateJob_logs_and_resolves[where jid="Some 9" and partial="?p" and s="?s"
      and e=NotFound and after="?s"]
  note b = updateJob_logs_and_resolves[where jid="Some 1" and partial="?p" and s="?s"
      and job="?job" and after="?s"]
  note c = updateJob_logs_and_resolves[where jid="Some 1" and partial="?p"
      and s=one_job_failing_update]
  from a g9 have a1: "updateJob (Some 9) ?p ?s =
       (Inr None, ?s\<lparr>logged := logged ?s @ [(''could not get job for job_id'', NotFound),
                       (''could not updateJob'', TypeError)]\<rparr>)"
    by blast
  have l: "logged ?s = []" by (simp add: one_execution_def)
  from a1 have a2: "fst (updateJob (Some 9) ?p ?s) = Inr None" by simp
  from a a2 have a3: "docs (job_store (snd (updateJob (Some 9) ?p ?s))) = docs (job_store ?s)"
    by blast
  from b g1 have b1: "\<exists>update_spec.
         updateJob (Some 1) ?p ?s =
           (case job_store_update' (Some 1) update_spec ?s of
              (Inr r, s2) \<Rightarrow> (Inr (Some r), s2)
            | (Inl e2, s2) \<Rightarrow>
                (Inr None, s2\<lparr>logged := logged s2 @ [(''could not updateJob'', e2)]\<rparr>))"
    by blast
  from c f have c1: "docs (job_store (snd (updateJob (Some 1) ?p one_job_failing_update)))
       = docs (job_store one_job_failing_update)"
    by blast
  from a1 l have a1': "updateJob (Some 9) ?p ?s =
       (Inr None, ?s\<lparr>logged := [(''could not get job for job_id'', NotFound),
                       (''could not updateJob'', TypeError)]\<rparr>)"
    by simp
  from g1 have g1': "fst (job_store_get (Some 1) ?s) = Inr ?job" by simp
  show ?thesis
    using g9 a1' a3 g1' b1 f c1 by blast
qed

subsection \<open>Creating an execution context\<close>

lemma ex_store_create_healthy:
  "healthy (ex_store s) \<Longrightarrow>
     ex_store_create job s =
       (Inr (created_record ''ex'' (uuid_seed s) (clock s) job),
        s\<lparr>uuid_seed := Suc (uuid_seed s),
          ex_store := (ex_store s)\<lparr>docs := docs (ex_store s)
                                       @ [created_record ''ex'' (uuid_seed s) (clock s) job]\<rparr>\<rparr>)"
  by (simp add: ex_store_create_def on_ex_store_def store_create_def backend_create_def
      backend_request_healthy created_record_def Let_def)

lemma job_store_create_healthy:
  "healthy (job_store s) \<Longrightarrow>
     job_store_create job s =
       (Inr (created_record ''job'' (uuid_seed s) (clock s) job),
        s\<lparr>uuid_seed := Suc (uuid_seed s),
          job_store := (job_store s)\<lparr>docs := docs (job_store s)
                                       @ [created_record ''job'' (uuid_seed s) (clock s) job]\<rparr>\<rparr>)"
  by (simp add: job_store_create_def on_job_store_def store_create_def backend_create_def
      backend_request_healthy created_record_def Let_def)

lemma checkModerator_run:
  "moderator_answers ctx cs job s \<Longrightarrow>
     checkModerator ctx cs job s =
       (case moderator job of
          None \<Rightarrow> (Inr JustTrue, s)
        | Some m \<Rightarrow>
            (case cluster_checkModerator cs (cluster_calls s)
                    (connectionDefaults (esConnectionState ctx) m) of
               Inr entries \<Rightarrow>
                 (Inr (Entries entries),
                  s\<lparr>cluster_calls := cluster_calls s
                       @ [CheckModerator (connectionDefaults (esConnectionState ctx) m)]\<rparr>)
             | Inl e \<Rightarrow> (Inl e, s)))"
  by (auto simp: moderator_answers_def checkModerator_def Let_def resolve_def catch_do_def then_do_def
      call_checkModerator_def split: option.splits sum.splits)

lemma createExecutionContext_run:
  assumes h: "healthy (ex_store s)" and m: "moderator_answers ctx cs job s"
  shows "createExecutionContext ctx cs job s =
     (let ex = created_record ''ex'' (uuid_seed s) (clock s) job;
          s1 = s\<lparr>uuid_seed := Suc (uuid_seed s),
                 ex_store := (ex_store s)\<lparr>docs := map (with_status (uuid_seed s) ''pending'' (clock s))
                                                    (docs (ex_store s) @ [ex])\<rparr>,
                 cluster_calls := cluster_calls s @ consulted ctx job\<rparr>
      in (Inr (empty_obj\<lparr>job_id := job_id job\<rparr>),
          if admitted ctx cs job s then
            s1\<lparr>pendingExecutionQueue := pendingExecutionQueue s @ [ex]\<rparr>
          else s1\<lparr>moderatorPausedQueue := moderatorPausedQueue s @ [ex]\<rparr>))"
proof -
  let ?ex = "created_record ''ex'' (uuid_seed s) (clock s) job"
  let ?s1 = "s\<lparr>uuid_seed := Suc (uuid_seed s),
          ex_store := (ex_store s)\<lparr>docs := docs (ex_store s) @ [?ex]\<rparr>\<rparr>"
  have c: "saveJob job ''ex'' s = (Inr ?ex, ?s1)"
    by (simp add: saveJob_def ex_store_create_healthy[OF h])
  have exid: "ex_id ?ex = Some (uuid_seed s)" "job_id ?ex = job_id job"
    by (simp_all add: created_record_def)
  have h1: "healthy (ex_store ?s1)" using h by (simp add: healthy_def)
  have st1: "stored (ex_store ?s1) (uuid_seed s)"
    by (simp add: stored_def exid)
  have v: "''pending'' \<in> set VALID_STATUS" by (simp add: VALID_STATUS_def)
  let ?s2 = "?s1\<lparr>ex_store := (ex_store ?s1)\<lparr>docs := map (with_status (uuid_seed s) ''pending'' (clock ?s1))
                                                    (docs (ex_store ?s1))\<rparr>\<rparr>"
  have w: "u_setStatus ?ex (Some ''pending'') None ?s1 = (Inr ?ex, ?s2)"
    by (rule setStatus_healthy[OF h1 st1 v exid(1)])
  have m2: "moderator_answers ctx cs job ?s2"
    using m by (simp add: moderator_answers_def split: option.splits sum.splits)
  show ?thesis
  proof (cases "moderator job")
    case None
    have cm: "checkModerator ctx cs job ?s2 = (Inr JustTrue, ?s2)"
      by (simp add: checkModerator_def None resolve_def)
    show ?thesis
      using c w cm
      by (simp add: createExecutionContext_def catch_do_def then_do_def promise_all2_def
          both_results_def every_canRun_def admitted_def consulted_def None Let_def queue_enqueue_def exid)
  next
    case (Some ml)
    from m Some obtain entries where a: "cluster_checkModerator cs (cluster_calls s)
                  (connectionDefaults (esConnectionState ctx) ml) = Inr entries"
      by (auto simp: moderator_answers_def split: sum.splits)
    have cm: "checkModerator ctx cs job ?s2 = (Inr (Entries entries),
        ?s2\<lparr>cluster_calls := cluster_calls s @ [CheckModerator (connectionDefaults (esConnectionState ctx) ml)]\<rparr>)"
      using checkModerator_run[OF m2] by (simp add: Some a)
    show ?thesis
      using c w cm
      by (simp add: createExecutionContext_def catch_do_def then_do_def promise_all2_def
          both_results_def every_canRun_def admitted_def consulted_def Some a Let_def queue_enqueue_def exid)
  qed
qed

lemma moderator_answers_iff:
  "moderator_answers ctx cs job s \<longleftrightarrow>
     (\<forall>m. moderator job = Some m \<longrightarrow>
        (\<exists>entries. cluster_checkModerator cs (cluster_calls s)
                      (connectionDefaults (esConnectionState ctx) m) = Inr entries))"
  by (auto simp: moderator_answers_def split: option.splits sum.splits)

text \<open>
  Claim C6. When the execution store is healthy and the moderator check, if one is made,
  does not fail, \<^verbatim>\<open>createExecutionContext\<close> puts the new execution at the tail of the
  pending queue if the job declares no moderator dependencies or every entry of the
  cluster's answer has \<^verbatim>\<open>canRun\<close> true, and at the tail of the queue of held executions
  in every other case; the other queue is left as it was. A job without moderator
  dependencies causes no call to the cluster service.
\<close>

theorem admission_decision:
  assumes "healthy (ex_store s)"
    and "\<forall>m. moderator job = Some m \<longrightarrow>
           cluster_checkModerator cs (cluster_calls s)
             (connectionDefaults (esConnectionState ctx) m) = Inr entries"
  shows "let ex = created_record ''ex'' (uuid_seed s) (clock s) job;
             s' = snd (createExecutionContext ctx cs job s)
         in (moderator job = None \<longrightarrow> cluster_calls s' = cluster_calls s)
            \<and> (if moderator job = None \<or> list_all (\<lambda>db. canRun db = True) entries then
                  pendingExecutionQueue s' = pendingExecutionQueue s @ [ex]
                  \<and> moderatorPausedQueue s' = moderatorPausedQueue s
                else
                  pendingExecutionQueue s' = pendingExecutionQueue s
                  \<and> moderatorPausedQueue s' = moderatorPausedQueue s @ [ex])"
proof -
  have m: "moderator_answers ctx cs job s"
    using assms(2) by (auto simp: moderator_answers_iff)
  have a: "admitted ctx cs job s
      = (moderator job = None \<or> list_all (\<lambda>db. canRun db = True) entries)"
    using assms(2) by (auto simp: admitted_def split: option.splits)
  show ?thesis
    unfolding createExecutionContext_run[OF assms(1) m] a
    by (simp add: Let_def consulted_def)
qed

theorem admission_decision_witness:
  "pendingExecutionQueue (snd (createExecutionContext context_plain
        (cluster_up\<lparr>cluster_checkModerator := (\<lambda>h c. Inr [\<lparr>canRun = False\<rparr>])\<rparr>)
        (empty_obj\<lparr>name := Some ''J1'', job_id := Some 1,
           moderator := Some [(''elasticsearch'', [''hot''])]\<rparr>)
        (one_execution ''running''))) = []
   \<and> map ex_id (moderatorPausedQueue (snd (createExecutionContext context_plain
        (cluster_up\<lparr>cluster_checkModerator := (\<lambda>h c. Inr [\<lparr>canRun = False\<rparr>])\<rparr>)
        (empty_obj\<lparr>name := Some ''J1'', job_id := Some 1,
           moderator := Some [(''elasticsearch'', [''hot''])]\<rparr>)
        (one_execution ''running'')))) = [Some 3]
   \<and> map ex_id (pendingExecutionQueue (snd (createExecutionContext context_plain
        cluster_up
        (empty_obj\<lparr>name := Some ''J1'', job_id := Some 1\<rparr>)
        (one_execution ''running'')))) = [Some 3]
   \<and> cluster_calls (snd (createExecutionContext context_plain
        cluster_up
        (empty_obj\<lparr>name := Some ''J1'', job_id := Some 1\<rparr>)
        (one_execution ''running''))) = []"
proof -
  have h: "healthy (ex_store (one_execution ''running''))"
    by (simp add: healthy_def one_execution_def)
  show ?thesis
    using admission_decision[OF h, where cs="cluster_up\<lparr>cluster_checkModerator := (\<lambda>h c. Inr [\<lparr>canRun = False\<rparr>])\<rparr>"
        and ctx="context_plain"
        and job="empty_obj\<lparr>name := Some ''J1'', job_id := Some 1,
           moderator := Some [(''elasticsearch'', [''hot''])]\<rparr>" and entries="[\<lparr>canRun = False\<rparr>]"]
      admission_decision[OF h, where cs=cluster_up
        and ctx="context_plain"
        and job="empty_obj\<lparr>name := Some ''J1'', job_id := Some 1\<rparr>" and entries="[]"]
    by (simp add: Let_def cluster_up_def one_execution_def empty_obj_def created_record_def)
qed

subsection \<open>Submitting a job\<close>

lemma ensureAssets_state: "snd (ensureAssets ctx job_spec s) = s"
  by (simp add: ensureAssets_def Let_def resolve_def reject_def split: option.splits)

lemma with_status_fresh: "\<not> stored b i \<Longrightarrow> map (with_status i st t) (docs b) = docs b"
  by (induction "docs b" arbitrary: b) (auto simp: stored_def with_status_def list_ex_iff map_idI)

text \<open>
  Claim C1. For a job spec that passes asset resolution and validation, on healthy
  stores, with a fresh execution id and a moderator check that does not fail,
  \<^verbatim>\<open>submitJob(spec, true)\<close> adds exactly one document to the job store (the valid job
  with the original asset names) and exactly one to the execution store (the job with the
  resolved assets), whose status is pending; the execution is appended to exactly one of
  the two queues, the other being left as it was; and the call resolves with the
  \<^verbatim>\<open>job_id\<close> alone.
\<close>

theorem submitJob_persists_job_and_execution:
  assumes assets_ok: "fst (ensureAssets ctx job_spec s) = Inr parsedAssetJob"
    and valid: "job_validator ctx parsedAssetJob = Some validJob"
    and stores: "healthy (job_store s) \<and> healthy (ex_store s)"
    and fresh: "\<not> stored (ex_store s) (Suc (uuid_seed s))"
    and mod: "\<forall>m. moderator validJob = Some m \<longrightarrow>
           cluster_checkModerator cs (cluster_calls s)
             (connectionDefaults (esConnectionState ctx) m) = Inr entries"
  shows "let job = created_record ''job'' (uuid_seed s) (clock s) (validJob\<lparr>assets := assets job_spec\<rparr>);
             ex = created_record ''ex'' (Suc (uuid_seed s)) (clock s) (job\<lparr>assets := assets validJob\<rparr>);
             result = submitJob ctx cs job_spec True s;
             s' = snd result
         in fst result = Inr (empty_obj\<lparr>job_id := Some (uuid_seed s)\<rparr>)
            \<and> docs (job_store s') = docs (job_store s) @ [job]
            \<and> docs (ex_store s') = docs (ex_store s) @ [ex\<lparr>u_status := Some ''pending''\<rparr>]
            \<and> (if moderator validJob = None \<or> list_all (\<lambda>db. canRun db = True) entries then
                  pendingExecutionQueue s' = pendingExecutionQueue s @ [ex]
                  \<and> moderatorPausedQueue s' = moderatorPausedQueue s
                else
                  pendingExecutionQueue s' = pendingExecutionQueue s
                  \<and> moderatorPausedQueue s' = moderatorPausedQueue s @ [ex])"
proof -
  let ?job = "created_record ''job'' (uuid_seed s) (clock s) (validJob\<lparr>assets := assets job_spec\<rparr>)"
  let ?s1 = "s\<lparr>uuid_seed := Suc (uuid_seed s),
          job_store := (job_store s)\<lparr>docs := docs (job_store s) @ [?job]\<rparr>\<rparr>"
  let ?job2 = "?job\<lparr>assets := assets validJob\<rparr>"
  have e: "ensureAssets ctx job_spec s = (Inr parsedAssetJob, s)"
    using assets_ok ensureAssets_state[of ctx job_spec s] by (cases "ensureAssets ctx job_spec s") simp
  have v: "u_validateJob ctx parsedAssetJob s = (Inr validJob, s)"
    by (simp add: u_validateJob_def valid resolve_def)
  have c: "saveJob (validJob\<lparr>assets := assets job_spec\<rparr>) ''job'' s = (Inr ?job, ?s1)"
    using stores by (simp add: saveJob_def job_store_create_healthy)
  have h1: "healthy (ex_store ?s1)" using stores by (simp add: healthy_def)
  have md: "moderator ?job2 = moderator validJob" "job_id ?job2 = Some (uuid_seed s)"
    by (simp_all add: created_record_def)
  have m1: "moderator_answers ctx cs ?job2 ?s1"
    using mod by (auto simp: moderator_answers_iff md)
  have fresh1: "map (with_status (Suc (uuid_seed s)) ''pending'' (clock s)) (docs (ex_store s)) = docs (ex_store s)"
    by (rule with_status_fresh[OF fresh])
  have ws: "with_status (Suc (uuid_seed s)) ''pending'' (clock s)
               (created_record ''ex'' (Suc (uuid_seed s)) (clock s) ?job2)
             = (created_record ''ex'' (Suc (uuid_seed s)) (clock s) ?job2)\<lparr>u_status := Some ''pending''\<rparr>"
    by (simp add: with_status_def created_record_def)
  note run = createExecutionContext_run[OF h1 m1]
  obtain r s2 where r: "createExecutionContext ctx cs ?job2 ?s1 = (Inr r, s2)"
    using run by (simp add: Let_def)
  have sub: "submitJob ctx cs job_spec True s = createExecutionContext ctx cs ?job2 ?s1"
    using e v c r
    by (simp add: submitJob_def catch_do_def then_do_def Let_def)
  have adm: "admitted ctx cs ?job2 ?s1
      = (moderator validJob = None \<or> list_all (\<lambda>db. canRun db = True) entries)"
    using mod by (auto simp: admitted_def md split: option.splits)
  show ?thesis
    unfolding sub run adm
    by (simp add: Let_def md fresh1 ws)
qed

theorem submitJob_persists_job_and_execution_witness:
  "fst (submitJob context_plain cluster_up (empty_obj\<lparr>name := Some ''J2'', workers := Some 2\<rparr>) True
          (one_execution ''running''))
     = Inr (empty_obj\<lparr>job_id := Some 3\<rparr>)
   \<and> map job_id (docs (job_store (snd (submitJob context_plain cluster_up
          (empty_obj\<lparr>name := Some ''J2'', workers := Some 2\<rparr>) True (one_execution ''running'')))))
       = [Some 1, Some 3]
   \<and> map u_status (docs (ex_store (snd (submitJob context_plain cluster_up
          (empty_obj\<lparr>name := Some ''J2'', workers := Some 2\<rparr>) True (one_execution ''running'')))))
       = [Some ''running'', Some ''pending'']
   \<and> map ex_id (pendingExecutionQueue (snd (submitJob context_plain cluster_up
          (empty_obj\<lparr>name := Some ''J2'', workers := Some 2\<rparr>) True (one_execution ''running''))))
       = [Some 4]
   \<and> moderatorPausedQueue (snd (submitJob context_plain cluster_up
          (empty_obj\<lparr>name := Some ''J2'', workers := Some 2\<rparr>) True (one_execution ''running'')))
       = []"
proof -
  let ?spec = "empty_obj\<lparr>name := Some ''J2'', workers := Some 2\<rparr>"
  let ?s = "one_execution ''running''"
  have a: "fst (ensureAssets context_plain ?spec ?s) = Inr ?spec"
    by (simp add: ensureAssets_def empty_obj_def resolve_def)
  have v: "job_validator context_plain ?spec = Some ?spec"
    by (simp add: context_plain_def)
  have h: "healthy (job_store ?s) \<and> healthy (ex_store ?s)"
    by (simp add: healthy_def one_execution_def)
  have f: "\<not> stored (ex_store ?s) (Suc (uuid_seed ?s))"
    by (simp add: stored_def one_execution_def empty_obj_def)
  have m: "\<forall>m. moderator ?spec = Some m \<longrightarrow>
           cluster_checkModerator cluster_up (cluster_calls ?s)
             (connectionDefaults (esConnectionState context_plain) m) = Inr []"
    by (simp add: empty_obj_def)
  show ?thesis
    using submitJob_persists_job_and_execution[OF a v h f m]
    by (simp add: Let_def one_execution_def empty_obj_def created_record_def)
qed

subsection \<open>The handler of moderate_jobs:resume\<close>

text \<open>Whenever the moderator check does not fail, the held execution is promoted: the
  entries of the answer are not read.\<close>

lemma release_held_promotes:
  assumes "moderator_answers ctx cs job s"
  shows "release_held ctx cs job s =
     (Inr (), s\<lparr>cluster_calls := cluster_calls s @ consulted ctx job,
                moderatorPausedQueue := queue_remove (moderatorPausedQueue s) (ex_id job),
                pendingExecutionQueue := job # pendingExecutionQueue s\<rparr>)"
  using checkModerator_run[OF assms] assms
  by (auto simp: release_held_def catch_do_def then_do_def truthy_def consulted_def
      moderator_answers_def queue_unshift_def split: option.splits sum.splits moderator_response.splits)

text \<open>
  Claim C7 fails on the code. The handler tests the answer of \<^verbatim>\<open>checkModerator\<close> with
  \<^verbatim>\<open>if (canRun)\<close>, and an array is true whatever its entries say; the sibling path
  \<^verbatim>\<open>createExecutionContext\<close> reads the same answer with \<^verbatim>\<open>_.every\<close>. Here the moderator
  still refuses the one held execution (its entry has \<^verbatim>\<open>canRun\<close> false), and the handler
  removes it from the queue of held executions and puts it on the pending queue.
\<close>

theorem resume_promotes_refused_execution:
  "every_canRun (Entries [\<lparr>canRun = False\<rparr>]) = False
   \<and> fst (checkModerator context_plain cluster_refusing (hd (moderatorPausedQueue one_held)) one_held)
       = Inr (Entries [\<lparr>canRun = False\<rparr>])
   \<and> moderatorPausedQueue
        (moderate_jobs_resume context_plain cluster_refusing
           [\<lparr>db_type = ''elasticsearch'', db_connection = ''hot''\<rparr>] one_held) = []
   \<and> pendingExecutionQueue
        (moderate_jobs_resume context_plain cluster_refusing
           [\<lparr>db_type = ''elasticsearch'', db_connection = ''hot''\<rparr>] one_held)
       = moderatorPausedQueue one_held"
  by (simp add: every_canRun_def moderate_jobs_resume_def release_held_def checkModerator_def
      connectionDefaults_def call_checkModerator_def truthy_def queue_remove_def queue_unshift_def
      catch_do_def then_do_def resolve_def reject_def logger_error_def
      findJobs_def ex_search_def ex_store_search_def on_ex_store_def store_search_def
      backend_search_def backend_request_def resume_query_def page_def sorted_docs_def
      context_plain_def cluster_refusing_def cluster_up_def one_held_def empty_obj_def Let_def)

subsection \<open>Failures in the allocator loop\<close>

lemma setStatus_written:
  assumes "healthy (ex_store s)" "stored (ex_store s) i" "st \<in> set VALID_STATUS" "ex_id j = Some i"
  shows "u_setStatus j (Some st) None s = (Inr j, status_written i st s)"
  unfolding status_written_def by (rule setStatus_healthy[OF assms])

lemma stored_with_status:
  "list_ex (\<lambda>d. ex_id d = Some i) (map (with_status j st t) ds) = list_ex (\<lambda>d. ex_id d = Some i) ds"
  by (induction ds) (auto simp: with_status_def)

lemma status_written_healthy [simp]:
  "healthy (ex_store (status_written i st s)) = healthy (ex_store s)"
  by (simp add: status_written_def healthy_def)

lemma status_written_stored [simp]:
  "stored (ex_store (status_written j st s)) i = stored (ex_store s) i"
  by (simp add: status_written_def stored_def stored_with_status)

lemma with_status_twice:
  "with_status i b t (with_status i a t d) = with_status i b t d"
  by (simp add: with_status_def)

lemma status_written_fields [simp]:
  "pendingExecutionQueue (status_written i st s) = pendingExecutionQueue s"
  "moderatorPausedQueue (status_written i st s) = moderatorPausedQueue s"
  "isJobBeingAllocated (status_written i st s) = isJobBeingAllocated s"
  "cluster_calls (status_written i st s) = cluster_calls s"
  "logged (status_written i st s) = logged s"
  "clock (status_written i st s) = clock s"
  "job_store (status_written i st s) = job_store s"
  "docs (ex_store (status_written i st s)) = map (with_status i st (clock s)) (docs (ex_store s))"
  by (simp_all add: status_written_def)

lemma with_status_map_twice:
  "with_status i b t \<circ> with_status i a t = with_status i b t"
  by (rule ext) (simp add: with_status_twice)

lemma allocate_slicer_failure:
  assumes q: "pendingExecutionQueue s = ex # rest"
    and h: "healthy (ex_store s)" and i: "ex_id ex = Some i" and st: "stored (ex_store s) i"
    and f: "cluster_allocateSlicer cs (cluster_calls s) ex (u_recover_execution ex) = Some err"
  shows "allocate cs s =
     (status_written i ''failed''
        (s\<lparr>isJobBeingAllocated := False, pendingExecutionQueue := rest,
           cluster_calls := cluster_calls s @ [AllocateSlicer ex (u_recover_execution ex)],
           logged := logged s @ [(''Failure during worker allocation'', err)]\<rparr>), True)"
proof -
  let ?s1 = "s\<lparr>isJobBeingAllocated := True, pendingExecutionQueue := rest\<rparr>"
  have v: "''scheduling'' \<in> set VALID_STATUS" "''failed'' \<in> set VALID_STATUS"
    by (simp_all add: VALID_STATUS_def)
  have w1: "u_setStatus ex (Some ''scheduling'') None ?s1 = (Inr ex, status_written i ''scheduling'' ?s1)"
    using h st by (intro setStatus_written v i) simp_all
  let ?s2 = "status_written i ''scheduling'' ?s1"
  let ?s3 = "?s2\<lparr>cluster_calls := cluster_calls s @ [AllocateSlicer ex (u_recover_execution ex)]\<rparr>"
  have a: "then_do (call_allocateSlicer cs ex (u_recover_execution ex))
              (\<lambda>_. u_setStatus ex (Some ''initializing'') None) ?s2 = (Inl err, ?s3)"
    using f by (simp add: then_do_def call_allocateSlicer_def settle_def)
  let ?s5 = "?s3\<lparr>logged := logged s @ [(''Failure during worker allocation'', err)],
                 isJobBeingAllocated := False\<rparr>"
  have w2: "u_setStatus ex (Some ''failed'') None ?s5 = (Inr ex, status_written i ''failed'' ?s5)"
    using h st by (intro setStatus_written v i) simp_all
  have fin: "status_written i ''failed'' ?s5 =
      status_written i ''failed''
        (s\<lparr>isJobBeingAllocated := False, pendingExecutionQueue := rest,
           cluster_calls := cluster_calls s @ [AllocateSlicer ex (u_recover_execution ex)],
           logged := logged s @ [(''Failure during worker allocation'', err)]\<rparr>)"
    by (simp add: status_written_def with_status_map_twice)
  have "allocate cs s = (status_written i ''failed'' ?s5, True)"
    using w1 a w2
    by (simp add: allocate_def q Let_def logger_error_def)
  with fin show ?thesis by simp
qed

lemma allocate_workers_failure:
  assumes q: "pendingExecutionQueue s = ex # rest"
    and h: "healthy (ex_store s)" and i: "ex_id ex = Some i" and st: "stored (ex_store s) i"
    and ok: "cluster_allocateSlicer cs (cluster_calls s) ex (u_recover_execution ex) = None"
    and f: "cluster_allocateWorkers cs
              (cluster_calls s @ [AllocateSlicer ex (u_recover_execution ex)]) ex (workers ex)
            = Some err"
  shows "allocate cs s =
     (status_written i ''initializing''
        (s\<lparr>isJobBeingAllocated := False, pendingExecutionQueue := rest,
           cluster_calls := cluster_calls s @ [AllocateSlicer ex (u_recover_execution ex),
                                               AllocateWorkers ex (workers ex)],
           logged := logged s @ [(''Workers failed to be allocated, they will be enqueued'',
                                  err)]\<rparr>), True)"
proof -
  let ?s1 = "s\<lparr>isJobBeingAllocated := True, pendingExecutionQueue := rest\<rparr>"
  have v: "''scheduling'' \<in> set VALID_STATUS" "''initializing'' \<in> set VALID_STATUS"
    by (simp_all add: VALID_STATUS_def)
  have w1: "u_setStatus ex (Some ''scheduling'') None ?s1 = (Inr ex, status_written i ''scheduling'' ?s1)"
    using h st by (intro setStatus_written v i) simp_all
  let ?s2 = "status_written i ''scheduling'' ?s1"
  let ?s3 = "?s2\<lparr>cluster_calls := cluster_calls s @ [AllocateSlicer ex (u_recover_execution ex)]\<rparr>"
  have w2: "u_setStatus ex (Some ''initializing'') None ?s3 = (Inr ex, status_written i ''initializing'' ?s3)"
    using h st by (intro setStatus_written v i) (simp_all add: status_written_def healthy_def stored_def stored_with_status)
  have a: "then_do (call_allocateSlicer cs ex (u_recover_execution ex))
              (\<lambda>_. u_setStatus ex (Some ''initializing'') None) ?s2
           = (Inr ex, status_written i ''initializing'' ?s3)"
    using ok w2 by (simp add: then_do_def call_allocateSlicer_def settle_def)
  let ?s4 = "status_written i ''initializing'' ?s3"
  have b: "call_allocateWorkers cs ex (workers ex) ?s4
      = (Inl err, ?s4\<lparr>cluster_calls := cluster_calls s @ [AllocateSlicer ex (u_recover_execution ex),
                                               AllocateWorkers ex (workers ex)]\<rparr>)"
    using f by (simp add: call_allocateWorkers_def settle_def)
  have fin: "?s4\<lparr>cluster_calls := cluster_calls s @ [AllocateSlicer ex (u_recover_execution ex),
                                               AllocateWorkers ex (workers ex)],
                logged := logged s @ [(''Workers failed to be allocated, they will be enqueued'', err)],
                isJobBeingAllocated := False\<rparr>
     = status_written i ''initializing''
        (s\<lparr>isJobBeingAllocated := False, pendingExecutionQueue := rest,
           cluster_calls := cluster_calls s @ [AllocateSlicer ex (u_recover_execution ex),
                                               AllocateWorkers ex (workers ex)],
           logged := logged s @ [(''Workers failed to be allocated, they will be enqueued'',
                                  err)]\<rparr>)"
    by (simp add: status_written_def with_status_map_twice)
  have "allocate cs s = (?s4\<lparr>cluster_calls := cluster_calls s @ [AllocateSlicer ex (u_recover_execution ex),
                                               AllocateWorkers ex (workers ex)],
                logged := logged s @ [(''Workers failed to be allocated, they will be enqueued'', err)],
                isJobBeingAllocated := False\<rparr>, True)"
    using w1 a b
    by (simp add: allocate_def q Let_def logger_error_def)
  with fin show ?thesis by simp
qed

text \<open>
  Claim C2. The allocator is idle, the execution \<open>ex\<close> is at the front of the pending
  queue, two workers are available, and the execution store is healthy and holds the
  execution. If the allocation of the slicer fails, the round of the allocator leaves
  the execution with the status failed. If the slicer is allocated and the allocation of
  the workers fails, it leaves the execution with the status initializing. In both cases
  the round ends with \<^verbatim>\<open>isJobBeingAllocated\<close> cleared and the execution taken from the
  queue, and the allocator goes on from that state: it runs again on the rest of the
  pending queue.
\<close>

theorem allocator_continues_after_failure:
  assumes "\<not> isJobBeingAllocated s" and "pendingExecutionQueue s = ex # rest"
    and "2 \<le> cluster_availableWorkers cs (cluster_calls s)"
    and "healthy (ex_store s)" and "ex_id ex = Some i" and "stored (ex_store s) i"
  shows "(cluster_allocateSlicer cs (cluster_calls s) ex (u_recover_execution ex) = Some err \<longrightarrow>
           (let s' = fst (allocate cs s)
            in docs (ex_store s') = map (with_status i ''failed'' (clock s)) (docs (ex_store s))
               \<and> \<not> isJobBeingAllocated s'
               \<and> pendingExecutionQueue s' = rest
               \<and> allocator cs s = allocator cs s'))
       \<and> (cluster_allocateSlicer cs (cluster_calls s) ex (u_recover_execution ex) = None
            \<and> cluster_allocateWorkers cs
                 (cluster_calls s @ [AllocateSlicer ex (u_recover_execution ex)]) ex (workers ex)
               = Some err \<longrightarrow>
           (let s' = fst (allocate cs s)
            in docs (ex_store s') = map (with_status i ''initializing'' (clock s)) (docs (ex_store s))
               \<and> \<not> isJobBeingAllocated s'
               \<and> pendingExecutionQueue s' = rest
               \<and> allocator cs s = allocator cs s'))"
proof (intro conjI impI)
  assume f: "cluster_allocateSlicer cs (cluster_calls s) ex (u_recover_execution ex) = Some err"
  note a = allocate_slicer_failure[OF assms(2,4,5,6) f]
  have "allocator cs s = allocator cs (fst (allocate cs s))"
    using assms(1,2,3) by (subst allocator.simps) (simp add: a)
  then show "let s' = fst (allocate cs s)
            in docs (ex_store s') = map (with_status i ''failed'' (clock s)) (docs (ex_store s))
               \<and> \<not> isJobBeingAllocated s'
               \<and> pendingExecutionQueue s' = rest
               \<and> allocator cs s = allocator cs s'"
    by (simp add: a Let_def)
next
  assume f: "cluster_allocateSlicer cs (cluster_calls s) ex (u_recover_execution ex) = None
            \<and> cluster_allocateWorkers cs
                 (cluster_calls s @ [AllocateSlicer ex (u_recover_execution ex)]) ex (workers ex)
               = Some err"
  note a = allocate_workers_failure[OF assms(2,4,5,6) conjunct1[OF f] conjunct2[OF f]]
  have "allocator cs s = allocator cs (fst (allocate cs s))"
    using assms(1,2,3) by (subst allocator.simps) (simp add: a)
  then show "let s' = fst (allocate cs s)
            in docs (ex_store s') = map (with_status i ''initializing'' (clock s)) (docs (ex_store s))
               \<and> \<not> isJobBeingAllocated s'
               \<and> pendingExecutionQueue s' = rest
               \<and> allocator cs s = allocator cs s'"
    by (simp add: a Let_def)
qed

lemma allocator_idle: "pendingExecutionQueue s = [] \<Longrightarrow> allocator cs s = s"
  by (subst allocator.simps) simp

theorem allocator_continues_after_failure_witness:
  "map u_status (docs (ex_store (allocator cluster_no_slicer one_pending))) = [Some ''failed'']
   \<and> isJobBeingAllocated (allocator cluster_no_slicer one_pending) = False
   \<and> pendingExecutionQueue (allocator cluster_no_slicer one_pending) = []
   \<and> map u_status (docs (ex_store (allocator cluster_no_workers one_pending)))
       = [Some ''initializing'']
   \<and> isJobBeingAllocated (allocator cluster_no_workers one_pending) = False
   \<and> pendingExecutionQueue (allocator cluster_no_workers one_pending) = []"
proof -
  let ?ex = "empty_obj\<lparr>name := Some ''J1'', workers := Some 2, job_id := Some 1, ex_id := Some 2,
           u_context := Some ''ex''\<rparr>"
  have g: "\<not> isJobBeingAllocated one_pending" "pendingExecutionQueue one_pending = ?ex # []"
    "healthy (ex_store one_pending)" "ex_id ?ex = Some 2" "stored (ex_store one_pending) 2"
    by (simp_all add: one_pending_def one_execution_def healthy_def stored_def empty_obj_def)
  have w1: "2 \<le> cluster_availableWorkers cluster_no_slicer (cluster_calls one_pending)"
    and w2: "2 \<le> cluster_availableWorkers cluster_no_workers (cluster_calls one_pending)"
    by (simp_all add: cluster_no_slicer_def cluster_no_workers_def cluster_up_def)
  have f1: "cluster_allocateSlicer cluster_no_slicer (cluster_calls one_pending) ?ex
              (u_recover_execution ?ex) = Some (ClusterError ''no slicer slot'')"
    by (simp add: cluster_no_slicer_def)
  have f2: "cluster_allocateSlicer cluster_no_workers (cluster_calls one_pending) ?ex
              (u_recover_execution ?ex) = None
            \<and> cluster_allocateWorkers cluster_no_workers
                 (cluster_calls one_pending @ [AllocateSlicer ?ex (u_recover_execution ?ex)]) ?ex
                 (workers ?ex) = Some (ClusterError ''no workers'')"
    by (simp add: cluster_no_workers_def cluster_up_def)
  let ?a = "fst (allocate cluster_no_slicer one_pending)"
  let ?b = "fst (allocate cluster_no_workers one_pending)"
  from allocator_continues_after_failure[OF g(1,2) w1 g(3,4,5), where err="ClusterError ''no slicer slot''"] f1
  have a: "docs (ex_store ?a) = map (with_status 2 ''failed'' (clock one_pending)) (docs (ex_store one_pending))"
    "\<not> isJobBeingAllocated ?a" "pendingExecutionQueue ?a = []"
    "allocator cluster_no_slicer one_pending = allocator cluster_no_slicer ?a"
    by (simp_all add: Let_def)
  from allocator_continues_after_failure[OF g(1,2) w2 g(3,4,5), where err="ClusterError ''no workers''"] f2
  have b: "docs (ex_store ?b) = map (with_status 2 ''initializing'' (clock one_pending)) (docs (ex_store one_pending))"
    "\<not> isJobBeingAllocated ?b" "pendingExecutionQueue ?b = []"
    "allocator cluster_no_workers one_pending = allocator cluster_no_workers ?b"
    by (simp_all add: Let_def)
  have a': "allocator cluster_no_slicer one_pending = ?a"
    using a(4) allocator_idle[OF a(3)] by simp
  have b': "allocator cluster_no_workers one_pending = ?b"
    using b(4) allocator_idle[OF b(3)] by simp
  have d: "map u_status (map (with_status 2 st (clock one_pending)) (docs (ex_store one_pending))) = [Some st]" for st
    by (simp add: one_pending_def one_execution_def with_status_def empty_obj_def)
  have da: "map u_status (docs (ex_store ?a)) = [Some ''failed'']"
    unfolding a(1) by (rule d)
  have db: "map u_status (docs (ex_store ?b)) = [Some ''initializing'']"
    unfolding b(1) by (rule d)
  show ?thesis
    unfolding a' b' using a(2,3) b(2,3) da db by blast
qed

subsection \<open>Shutdown\<close>

lemma finally_snd: "snd (finally_do p h s) = snd (h (snd (p s)))"
  by (simp add: finally_do_def split: prod.splits sum.splits)

lemma close_both:
  "snd (promise_all2 job_store_shutdown ex_store_shutdown s)
     = s\<lparr>job_store := (job_store s)\<lparr>is_shutdown := True\<rparr>,
         ex_store := (ex_store s)\<lparr>is_shutdown := True\<rparr>\<rparr>"
  by (simp add: promise_all2_def job_store_shutdown_def ex_store_shutdown_def on_job_store_def
      on_ex_store_def store_shutdown_def backend_shutdown_def)

lemma stores_closed_after_shutdown:
  "is_shutdown (job_store (snd (shutdown cs s))) \<and> is_shutdown (ex_store (snd (shutdown cs s)))"
  by (simp add: shutdown_def finally_snd close_both)

lemma shutdown_docs:
  "docs (ex_store (snd (shutdown cs s)))
     = docs (ex_store (snd (promise_map (ex_search shutdown_query)
          (\<lambda>job. attempt (u_signalJobStateChange cs (ex_id job) ''stop'' (Some ''terminated''))) s)))"
  by (simp add: shutdown_def finally_snd close_both)

lemma shutdown_calls:
  "cluster_calls (snd (shutdown cs s))
     = cluster_calls (snd (promise_map (ex_search shutdown_query)
          (\<lambda>job. attempt (u_signalJobStateChange cs (ex_id job) ''stop'' (Some ''terminated''))) s))"
  by (simp add: shutdown_def finally_snd close_both)

lemma answers_all_none:
  "\<forall>h nid m e. cluster_notifyNode cs h nid m e = None \<Longrightarrow>
     first_failure (notify_answers cs h nodes m e) = None"
  by (induction nodes arbitrary: h) (simp_all add: first_failure_def)

lemma ex_search_healthy:
  "healthy (ex_store s) \<Longrightarrow>
     ex_search q s = (Inr (take 10000 (filter (matches q) (docs (ex_store s)))), s)"
  by (simp add: ex_search_def catch_do_def then_do_def resolve_def ex_store_search_def
      on_ex_store_def store_search_def backend_search_def backend_request_healthy page_def
      sorted_docs_def)

lemma stop_message: "MESSAGE_MAPPING ''stop'' = Some ''cluster:job:stop''"
  by (simp add: MESSAGE_MAPPING_def)

lemma stop_all_nodes: "slicer_only ''stop'' = False"
  by (simp add: slicer_only_def)

lemma terminated_valid: "''terminated'' \<in> set VALID_STATUS"
  by (simp add: VALID_STATUS_def)

lemma terminate_all:
  assumes quiet: "\<forall>h nid m e. cluster_notifyNode cs h nid m e = None"
  shows "healthy (ex_store s) \<Longrightarrow> \<forall>x\<in>set xs. \<exists>i. ex_id x = Some i \<and> stored (ex_store s) i \<Longrightarrow>
     (let r = promise_all (map (\<lambda>job. attempt (u_signalJobStateChange cs (ex_id job) ''stop''
                                                  (Some ''terminated''))) xs) s
      in fst r = Inr (map (\<lambda>_. Some ''terminated'') xs)
         \<and> healthy (ex_store (snd r))
         \<and> clock (snd r) = clock s
         \<and> cluster_calls (snd r) = cluster_calls s @ stop_calls cs (cluster_calls s) xs
         \<and> docs (ex_store (snd r))
             = fold (\<lambda>x ds. map (with_status (the (ex_id x)) ''terminated'' (clock s)) ds) xs
                 (docs (ex_store s)))"
proof (induction xs arbitrary: s)
  case Nil
  then show ?case by simp
next
  case (Cons x xs)
  from Cons.prems(2) obtain i where i: "ex_id x = Some i" "stored (ex_store s) i" by auto
  let ?c = "notifications (cluster_findNodesForJob cs (cluster_calls s) (Some i) False)
              ''cluster:job:stop'' (Some i)"
  let ?s1 = "s\<lparr>cluster_calls := cluster_calls s @ ?c,
               ex_store := (ex_store s)\<lparr>docs := map (with_status i ''terminated'' (clock s))
                                                  (docs (ex_store s))\<rparr>\<rparr>"
  have ff: "first_failure (notify_answers cs (cluster_calls s)
           (cluster_findNodesForJob cs (cluster_calls s) (Some i) (slicer_only ''stop''))
           ''cluster:job:stop'' (Some i)) = None"
    by (rule answers_all_none[OF quiet])
  have step: "attempt (u_signalJobStateChange cs (Some i) ''stop'' (Some ''terminated'')) s
      = (Inr (Some ''terminated''), ?s1)"
    using signal_ok[OF stop_message ff Cons.prems(1) i(2) terminated_valid]
    by (simp add: stop_all_nodes)
  have h1: "healthy (ex_store ?s1)" using Cons.prems(1) by (simp add: healthy_def)
  have st1: "\<forall>y\<in>set xs. \<exists>j. ex_id y = Some j \<and> stored (ex_store ?s1) j"
    using Cons.prems(2) by (auto simp: stored_def stored_with_status)
  let ?f = "\<lambda>job. attempt (u_signalJobStateChange cs (ex_id job) ''stop'' (Some ''terminated''))"
  obtain rs s2 where rest: "promise_all (map ?f xs) ?s1 = (rs, s2)"
    by (cases "promise_all (map ?f xs) ?s1")
  from Cons.IH[OF h1 st1] rest
  have ih: "rs = Inr (map (\<lambda>_. Some ''terminated'') xs)" "healthy (ex_store s2)"
    "clock s2 = clock s"
    "cluster_calls s2 = cluster_calls s @ ?c @ stop_calls cs (cluster_calls s @ ?c) xs"
    "docs (ex_store s2)
       = fold (\<lambda>x ds. map (with_status (the (ex_id x)) ''terminated'' (clock s)) ds) xs
           (map (with_status i ''terminated'' (clock s)) (docs (ex_store s)))"
    by (simp_all add: Let_def)
  have all: "promise_all (map ?f (x # xs)) s
      = (Inr (Some ''terminated'' # map (\<lambda>_. Some ''terminated'') xs), s2)"
    using step rest ih(1) by (simp add: i(1) both_results_def)
  show ?case
    unfolding all using ih(2-5) by (simp add: Let_def i(1))
qed

lemma fold_with_status:
  "fold (\<lambda>x ds. map (with_status (the (ex_id x)) st t) ds) xs ds
     = map (\<lambda>d. if ex_id d \<in> ex_id ` set xs \<and> ex_id d \<noteq> None
                 then d\<lparr>u_status := Some st, u_updated := Some t\<rparr> else d) ds"
  if "\<forall>x\<in>set xs. ex_id x \<noteq> None"
  using that
proof (induction xs arbitrary: ds)
  case Nil
  then show ?case by (simp add: map_idI)
next
  case (Cons x xs)
  from Cons.prems obtain i where i: "ex_id x = Some i" by auto
  have "fold (\<lambda>x ds. map (with_status (the (ex_id x)) st t) ds) (x # xs) ds
      = map (\<lambda>d. if ex_id d \<in> ex_id ` set xs \<and> ex_id d \<noteq> None
                 then d\<lparr>u_status := Some st, u_updated := Some t\<rparr> else d)
          (map (with_status i st t) ds)"
    using Cons by (simp add: i)
  also have "\<dots> = map (\<lambda>d. if ex_id d \<in> ex_id ` set (x # xs) \<and> ex_id d \<noteq> None
                 then d\<lparr>u_status := Some st, u_updated := Some t\<rparr> else d) ds"
    by (auto simp: with_status_def i)
  finally show ?case .
qed

lemma shutdown_query_active: "matches shutdown_query = active_execution"
  by (rule ext) (auto simp: shutdown_query_def list_ex_iff isActive_def active_execution_def
      split: option.splits)

lemma terminated_not_active: "\<not> active_execution (terminated_at t d)"
  by (simp add: active_execution_def terminated_at_def isActive_iff)

lemma ex_search_active:
  assumes h: "healthy (ex_store s)"
    and cap: "length (filter active_execution (docs (ex_store s))) \<le> 10000"
  shows "ex_search shutdown_query s = (Inr (filter active_execution (docs (ex_store s))), s)"
  unfolding ex_search_healthy[OF h] shutdown_query_active using cap by (simp only: take_all)

lemma ex_search_calls: "cluster_calls (snd (ex_search q s)) = cluster_calls s"
  by (simp add: ex_search_def catch_do_def then_do_def resolve_def reject_def logger_error_def
      ex_store_search_def on_ex_store_def split: prod.splits sum.splits)

lemma all_stop_calls:
  "cluster_calls (snd (promise_all
      (map (\<lambda>job. attempt (u_signalJobStateChange cs (ex_id job) ''stop'' (Some ''terminated'')))
         xs) s))
     = cluster_calls s @ stop_calls cs (cluster_calls s) xs"
proof (induction xs arbitrary: s)
  case Nil
  then show ?case by simp
next
  case (Cons x xs)
  let ?f = "\<lambda>job. attempt (u_signalJobStateChange cs (ex_id job) ''stop'' (Some ''terminated''))"
  let ?c = "notifications (cluster_findNodesForJob cs (cluster_calls s) (ex_id x) False)
              ''cluster:job:stop'' (ex_id x)"
  have one: "cluster_calls (snd (?f x s)) = cluster_calls s @ ?c"
    using signal_calls[OF stop_message, where cs=cs and exid="ex_id x"
        and state="Some ''terminated''" and s=s]
    by (simp add: stop_all_nodes)
  have "snd (promise_all (map ?f (x # xs)) s) = snd (promise_all (map ?f xs) (snd (?f x s)))"
    by (simp split: prod.splits)
  then have "cluster_calls (snd (promise_all (map ?f (x # xs)) s))
      = cluster_calls (snd (?f x s)) @ stop_calls cs (cluster_calls (snd (?f x s))) xs"
    using Cons.IH[of "snd (?f x s)"] by simp
  then show ?case
    unfolding one by (simp add: Let_def)
qed

lemma shutdown_stop_calls:
  assumes "fst (ex_search shutdown_query s) = Inr found"
  shows "cluster_calls (snd (shutdown cs s)) = cluster_calls s @ stop_calls cs (cluster_calls s) found"
proof -
  let ?f = "\<lambda>job. attempt (u_signalJobStateChange cs (ex_id job) ''stop'' (Some ''terminated''))"
  obtain s1 where sr: "ex_search shutdown_query s = (Inr found, s1)"
    using assms by (cases "ex_search shutdown_query s") auto
  have c1: "cluster_calls s1 = cluster_calls s"
    using ex_search_calls[of shutdown_query s] sr by simp
  have pm: "promise_map (ex_search shutdown_query) ?f s = promise_all (map ?f found) s1"
    by (simp add: promise_map_def then_do_def sr)
  show ?thesis
    unfolding shutdown_calls pm all_stop_calls c1 ..
qed

text \<open>
  Claim C8, as amended. \<^verbatim>\<open>shutdown()\<close> closes both stores whatever happens to the
  executions. It sends the stop message to the nodes of every execution its search for
  the active statuses returns (at most 10,000). If the execution store is healthy, every
  stored execution has an \<^verbatim>\<open>ex_id\<close>, every node notification succeeds and at most 10,000
  executions have an active status, then the search returns all of them, the status
  terminated (not stopped) is written to each, and afterwards no execution has an active
  status. When a notification fails, this is not promised.
\<close>

theorem shutdown_closes_stores_and_terminates:
  "(is_shutdown (job_store (snd (shutdown cs s))) \<and> is_shutdown (ex_store (snd (shutdown cs s))))
   \<and> (fst (ex_search shutdown_query s) = Inr found \<longrightarrow>
        cluster_calls (snd (shutdown cs s))
          = cluster_calls s @ stop_calls cs (cluster_calls s) found)
   \<and> (healthy (ex_store s)
        \<and> (\<forall>d\<in>set (docs (ex_store s)). ex_id d \<noteq> None)
        \<and> (\<forall>h nid m e. cluster_notifyNode cs h nid m e = None)
        \<and> length (filter active_execution (docs (ex_store s))) \<le> 10000
      \<longrightarrow>
        (let active = filter active_execution (docs (ex_store s));
             s' = snd (shutdown cs s)
         in fst (ex_search shutdown_query s) = Inr active
            \<and> docs (ex_store s')
                = map (\<lambda>d. if ex_id d \<in> ex_id ` set active then terminated_at (clock s) d else d)
                    (docs (ex_store s))
            \<and> (\<forall>d\<in>set (docs (ex_store s')). \<not> active_execution d)))"
proof (intro conjI impI)
  show "is_shutdown (job_store (snd (shutdown cs s)))" "is_shutdown (ex_store (snd (shutdown cs s)))"
    using stores_closed_after_shutdown[of cs s] by simp_all
next
  assume "fst (ex_search shutdown_query s) = Inr found"
  then show "cluster_calls (snd (shutdown cs s))
          = cluster_calls s @ stop_calls cs (cluster_calls s) found"
    by (rule shutdown_stop_calls)
next
  assume a: "healthy (ex_store s)
        \<and> (\<forall>d\<in>set (docs (ex_store s)). ex_id d \<noteq> None)
        \<and> (\<forall>h nid m e. cluster_notifyNode cs h nid m e = None)
        \<and> length (filter active_execution (docs (ex_store s))) \<le> 10000"
  let ?active = "filter active_execution (docs (ex_store s))"
  let ?f = "\<lambda>job. attempt (u_signalJobStateChange cs (ex_id job) ''stop'' (Some ''terminated''))"
  let ?g = "\<lambda>d. if ex_id d \<in> ex_id ` set ?active then terminated_at (clock s) d else d"
  from a have h: "healthy (ex_store s)" and ids: "\<forall>d\<in>set (docs (ex_store s)). ex_id d \<noteq> None"
    and quiet: "\<forall>h nid m e. cluster_notifyNode cs h nid m e = None"
    and cap: "length ?active \<le> 10000"
    by blast+
  note search = ex_search_active[OF h cap]
  have found: "fst (ex_search shutdown_query s) = Inr ?active"
    unfolding search by simp
  have pm: "promise_map (ex_search shutdown_query) ?f s = promise_all (map ?f ?active) s"
    unfolding promise_map_def then_do_def search by simp
  have st: "\<forall>x\<in>set ?active. \<exists>i. ex_id x = Some i \<and> stored (ex_store s) i"
    using ids by (fastforce simp: stored_def list_ex_iff)
  have ids': "\<forall>x\<in>set ?active. ex_id x \<noteq> None"
    using ids by simp
  from terminate_all[OF quiet h st]
  have d0: "docs (ex_store (snd (promise_all (map ?f ?active) s)))
             = fold (\<lambda>x ds. map (with_status (the (ex_id x)) ''terminated'' (clock s)) ds) ?active
                 (docs (ex_store s))"
    unfolding Let_def by blast
  have d1: "docs (ex_store (snd (promise_all (map ?f ?active) s))) = map ?g (docs (ex_store s))"
    unfolding d0 fold_with_status[OF ids']
    using ids by (intro map_cong) (auto simp: terminated_at_def)
  have none: "\<forall>d\<in>set (map ?g (docs (ex_store s))). \<not> active_execution d"
  proof
    fix d' assume "d' \<in> set (map ?g (docs (ex_store s)))"
    then obtain d where d: "d \<in> set (docs (ex_store s))" "d' = ?g d" by auto
    show "\<not> active_execution d'"
    proof (cases "ex_id d \<in> ex_id ` set ?active")
      case True
      with d show ?thesis by (simp add: terminated_not_active)
    next
      case False
      then have "\<not> active_execution d" using d(1) by auto
      with False d show ?thesis by simp
    qed
  qed
  show "let active = filter active_execution (docs (ex_store s));
             s' = snd (shutdown cs s)
         in fst (ex_search shutdown_query s) = Inr active
            \<and> docs (ex_store s')
                = map (\<lambda>d. if ex_id d \<in> ex_id ` set active then terminated_at (clock s) d else d)
                    (docs (ex_store s))
            \<and> (\<forall>d\<in>set (docs (ex_store s')). \<not> active_execution d)"
    unfolding Let_def shutdown_docs pm d1
    using none found by blast
qed

theorem shutdown_closes_stores_and_terminates_witness:
  "map u_status (docs (ex_store (snd (shutdown cluster_up two_executions))))
     = [Some ''terminated'', Some ''completed'']
   \<and> cluster_calls (snd (shutdown cluster_up two_executions))
       = [NotifyNode ''node-1'' ''cluster:job:stop'' (Some 2)]
   \<and> is_shutdown (job_store (snd (shutdown cluster_up two_executions)))
   \<and> is_shutdown (ex_store (snd (shutdown cluster_up two_executions)))"
proof -
  have h: "healthy (ex_store two_executions)
        \<and> (\<forall>d\<in>set (docs (ex_store two_executions)). ex_id d \<noteq> None)
        \<and> (\<forall>h nid m e. cluster_notifyNode cluster_up h nid m e = None)
        \<and> length (filter active_execution (docs (ex_store two_executions))) \<le> 10000"
    by (simp add: healthy_def two_executions_def empty_obj_def cluster_up_def)
  let ?e = "empty_obj\<lparr>name := Some ''J1'', job_id := Some 1, ex_id := Some 2,
                                 u_context := Some ''ex'', u_status := Some ''running''\<rparr>"
  have act: "filter active_execution (docs (ex_store two_executions)) = [?e]"
    by (simp add: two_executions_def active_execution_def isActive_iff empty_obj_def)
  note t = shutdown_closes_stores_and_terminates[where cs=cluster_up and s=two_executions
      and found="[?e]"]
  from t h have found: "fst (ex_search shutdown_query two_executions) = Inr [?e]"
    unfolding Let_def act by blast
  from t found have calls: "cluster_calls (snd (shutdown cluster_up two_executions))
      = cluster_calls two_executions @ stop_calls cluster_up (cluster_calls two_executions) [?e]"
    by blast
  from t h have d: "docs (ex_store (snd (shutdown cluster_up two_executions)))
      = map (\<lambda>d. if ex_id d \<in> ex_id ` set [?e] then terminated_at (clock two_executions) d else d)
          (docs (ex_store two_executions))"
    unfolding Let_def act by blast
  from t have c: "is_shutdown (job_store (snd (shutdown cluster_up two_executions)))"
    "is_shutdown (ex_store (snd (shutdown cluster_up two_executions)))" by blast+
  have d': "map u_status (docs (ex_store (snd (shutdown cluster_up two_executions))))
     = [Some ''terminated'', Some ''completed'']"
    unfolding d by (simp add: two_executions_def empty_obj_def terminated_at_def)
  have calls': "cluster_calls (snd (shutdown cluster_up two_executions))
       = [NotifyNode ''node-1'' ''cluster:job:stop'' (Some 2)]"
    unfolding calls
    by (simp add: two_executions_def empty_obj_def cluster_up_def notifications_def)
  show ?thesis using d' calls' c by blast
qed

text \<open>
  Claim C8 as stated fails: \<^verbatim>\<open>_signalJobStateChange\<close> writes the status only after all
  notifications have succeeded. With a running execution whose node does not answer the
  stop message, the execution is still running, an active status, after \<^verbatim>\<open>shutdown()\<close>.
\<close>

theorem shutdown_unreachable_node_counterexample:
  "isActive ''running''
   \<and> map u_status (docs (ex_store (snd (shutdown cluster_deaf (one_execution ''running'')))))
       = [Some ''running'']"
proof -
  let ?s = "one_execution ''running''"
  let ?ex = "empty_obj\<lparr>name := Some ''J1'', job_id := Some 1, ex_id := Some 2,
                                 u_context := Some ''ex'', u_status := Some ''running''\<rparr>"
  have h: "healthy (ex_store ?s)" by (simp add: healthy_def one_execution_def)
  have search: "ex_search shutdown_query ?s = (Inr [?ex], ?s)"
    by (simp add: ex_search_healthy[OF h] shutdown_query_active)
       (simp add: one_execution_def active_execution_def isActive_iff empty_obj_def)
  have exid: "ex_id ?ex = Some 2" by (simp add: empty_obj_def)
  have ff: "first_failure (notify_answers cluster_deaf (cluster_calls ?s)
           (cluster_findNodesForJob cluster_deaf (cluster_calls ?s) (Some 2) (slicer_only ''stop''))
           ''cluster:job:stop'' (Some 2)) = Some (ClusterError ''node unreachable'')"
    by (simp add: cluster_deaf_def cluster_up_def first_failure_def)
  note f = signal_failed[OF stop_message ff, where state="Some ''terminated''"]
  have "docs (ex_store (snd (shutdown cluster_deaf ?s))) = docs (ex_store ?s)"
    unfolding shutdown_docs
    by (simp add: promise_map_def then_do_def search exid f both_results_def)
  then show ?thesis
    by (simp add: isActive_iff one_execution_def empty_obj_def)
qed

end
